theory Spec2Isabelle
  imports Complex_Main
begin

section \<open>JavaScript strings\<close>

text \<open>
  Strings are lists of characters. The embedding covers ASCII text: \<open>toLowerCase\<close> and
  \<open>toUpperCase\<close> change the 26 letters of the English alphabet and nothing else, and the
  white space of \<open>trim\<close> and of the regular expression class \<open>\s\<close> is tab, line
  feed, vertical tab, form feed, carriage return and space. Characters outside ASCII are
  carried along unchanged, whereas JavaScript changes the case of letters outside ASCII
  too (\<open>toUpperCase\<close> turns the sharp s into \<open>SS\<close>) and counts more characters as white
  space. \<open>isAscii\<close> marks the strings on which the definitions of this section are those
  of JavaScript.
\<close>

definition isAscii :: "string \<Rightarrow> bool" where
  "isAscii s = list_all (\<lambda>c. (of_char c :: nat) < 128) s"

definition upperChars :: string where
  "upperChars = ''ABCDEFGHIJKLMNOPQRSTUVWXYZ''"

definition lowerChars :: string where
  "lowerChars = ''abcdefghijklmnopqrstuvwxyz''"

definition toLowerChar :: "char \<Rightarrow> char" where
  "toLowerChar c = (case map_of (zip upperChars lowerChars) c of Some d \<Rightarrow> d | None \<Rightarrow> c)"

definition toUpperChar :: "char \<Rightarrow> char" where
  "toUpperChar c = (case map_of (zip lowerChars upperChars) c of Some d \<Rightarrow> d | None \<Rightarrow> c)"

definition toLowerCase :: "string \<Rightarrow> string" where
  "toLowerCase s = map toLowerChar s"

definition isSpace :: "char \<Rightarrow> bool" where
  "isSpace c = (c \<in> set [CHR 0x09, CHR 0x0A, CHR 0x0B, CHR 0x0C, CHR 0x0D, CHR '' ''])"

definition trim :: "string \<Rightarrow> string" where
  "trim s = rev (dropWhile isSpace (rev (dropWhile isSpace s)))"

text \<open>\<open>s.startsWith(p)\<close> and \<open>s.includes(p)\<close>.\<close>

fun startsWith :: "string \<Rightarrow> string \<Rightarrow> bool" where
  "startsWith s [] = True"
| "startsWith [] (p # ps) = False"
| "startsWith (c # cs) (p # ps) = (c = p \<and> startsWith cs ps)"

fun includesStr :: "string \<Rightarrow> string \<Rightarrow> bool" where
  "includesStr [] p = (p = [])"
| "includesStr (c # cs) p = (startsWith (c # cs) p \<or> includesStr cs p)"

text \<open>\<open>s.split(sep)\<close> for a one-character separator, and \<open>ws.join(' ')\<close>.\<close>

fun split :: "char \<Rightarrow> string \<Rightarrow> string list" where
  "split sep [] = [[]]"
| "split sep (c # cs) =
     (if c = sep then [] # split sep cs
      else (case split sep cs of [] \<Rightarrow> [[c]] | w # ws \<Rightarrow> (c # w) # ws))"

fun join :: "string list \<Rightarrow> string" where
  "join [] = []"
| "join [w] = w"
| "join (w # v # ws) = w @ CHR '' '' # join (v # ws)"

text \<open>\<open>String(n)\<close> for a whole number \<open>n\<close>.\<close>

function showNat :: "nat \<Rightarrow> string" where
  "showNat n =
     (if n < 10 then [''0123456789'' ! n]
      else showNat (n div 10) @ [''0123456789'' ! (n mod 10)])"
  by pat_completeness auto
termination
  by (relation "measure id") auto

definition showInt :: "int \<Rightarrow> string" where
  "showInt i = (if i < 0 then CHR ''-'' # showNat (nat (- i)) else showNat (nat i))"

section \<open>Name normaliser (nameNormalizer.js)\<close>

definition PREFIXES :: "string list" where
  "PREFIXES = [''mr'', ''mr.'', ''mrs'', ''mrs.'', ''ms'', ''ms.'', ''dr'', ''dr.'',
     ''prof'', ''prof.'', ''professor'', ''shri'', ''smt'', ''kumari'']"

definition SUFFIXES :: "string list" where
  "SUFFIXES = [''sir'', ''mam'', [CHR ''m'', CHR ''a'', CHR 0x27, CHR ''a'', CHR ''m''],
     ''madam'', ''madem'', ''mem'', ''maam'', ''sahab'', ''sahib'', ''ji'', ''g'']"

text \<open>\<open>s.replace(/\s+/g, ' ')\<close>: every maximal run of white space becomes one space.\<close>

function collapseSpaces :: "string \<Rightarrow> string" where
  "collapseSpaces [] = []"
| "collapseSpaces (c # cs) =
     (if isSpace c then CHR '' '' # collapseSpaces (dropWhile isSpace cs)
      else c # collapseSpaces cs)"
  by pat_completeness auto
termination
  by (relation "measure length") (auto simp: less_Suc_eq_le length_dropWhile_le)

text \<open>\<open>s.replace(/\.\s*/g, ' ')\<close>: a dot with the white space after it becomes one space.\<close>

function replaceDots :: "string \<Rightarrow> string" where
  "replaceDots [] = []"
| "replaceDots (c # cs) =
     (if c = CHR ''.'' then CHR '' '' # replaceDots (dropWhile isSpace cs)
      else c # replaceDots cs)"
  by pat_completeness auto
termination
  by (relation "measure length") (auto simp: less_Suc_eq_le length_dropWhile_le)

text \<open>
  \<open>s.replace(/\s*\.\s*/g, ' ')\<close>: at each position the longest run of white space is
  skipped; if a dot follows, the run, the dot and the white space after it become one
  space, otherwise there is no match at this position and the character is kept.
\<close>

function replaceSpacedDots :: "string \<Rightarrow> string" where
  "replaceSpacedDots [] = []"
| "replaceSpacedDots (c # cs) =
     (case dropWhile isSpace (c # cs) of
        [] \<Rightarrow> c # replaceSpacedDots cs
      | d # ds \<Rightarrow>
          if d = CHR ''.'' then CHR '' '' # replaceSpacedDots (dropWhile isSpace ds)
          else c # replaceSpacedDots cs)"
  by pat_completeness auto
termination
proof (relation "measure length", goal_cases)
  case 1
  show ?case by simp
next
  case (2 c cs)
  show ?case by simp
next
  case (3 c cs d ds)
  have "length (dropWhile isSpace ds) \<le> length ds"
    by (rule length_dropWhile_le)
  moreover have "length (dropWhile isSpace (c # cs)) \<le> length (c # cs)"
    by (rule length_dropWhile_le)
  ultimately show ?case using 3 by simp
next
  case (4 c cs d ds)
  show ?case by simp
qed

definition removeDots :: "string \<Rightarrow> string" where
  "removeDots w = filter (\<lambda>c. c \<noteq> CHR ''.'') w"

text \<open>\<open>normalized.split(' ').filter(w => w.length > 0)\<close>\<close>

definition splitWords :: "string \<Rightarrow> string list" where
  "splitWords s = filter (\<lambda>w. length w > 0) (split (CHR '' '') s)"

definition removePrefix :: "string list \<Rightarrow> string list" where
  "removePrefix ws =
     (if length ws > 1 \<and> removeDots (hd ws) \<in> set PREFIXES then tl ws else ws)"

definition removeSuffix :: "string list \<Rightarrow> string list" where
  "removeSuffix ws =
     (if length ws > 1 \<and> removeDots (last ws) \<in> set SUFFIXES then butlast ws else ws)"

text \<open>\<open>word.charAt(0).toUpperCase() + word.slice(1).toLowerCase()\<close>\<close>

definition capitalize :: "string \<Rightarrow> string" where
  "capitalize w = (case w of [] \<Rightarrow> [] | c # cs \<Rightarrow> toUpperChar c # toLowerCase cs)"

definition normalizeName :: "string \<Rightarrow> string" where
  "normalizeName nm =
     (if nm = [] then []
      else
        let normalized = trim (toLowerCase nm);
            normalized = collapseSpaces normalized;
            normalized = replaceDots normalized;
            normalized = replaceSpacedDots normalized;
            ws = splitWords normalized;
            ws = removePrefix ws;
            ws = removeSuffix ws
        in join (map capitalize ws))"


section \<open>Arrays and plain objects\<close>

text \<open>
  \<open>xs.sort(cmp)\<close>: the stable sort of ECMAScript, as insertion from the right. For a
  comparator that is a consistent total preorder every stable sort returns this list; a
  comparator result that is not a number (\<open>NaN\<close>) counts as zero. Where the comparator
  is not consistent on the elements of the array ECMAScript leaves the order to the
  engine, and this definition gives one such order.
\<close>

fun insertBy :: "('a \<Rightarrow> 'a \<Rightarrow> int) \<Rightarrow> 'a \<Rightarrow> 'a list \<Rightarrow> 'a list" where
  "insertBy cmp x [] = [x]"
| "insertBy cmp x (y # ys) = (if cmp x y \<le> 0 then x # y # ys else y # insertBy cmp x ys)"

definition sortBy :: "('a \<Rightarrow> 'a \<Rightarrow> int) \<Rightarrow> 'a list \<Rightarrow> 'a list" where
  "sortBy cmp xs = foldr (insertBy cmp) xs []"

text \<open>
  A plain object used as a dictionary is a list of its own properties in insertion order.
  \<open>setProp\<close> overwrites an own property in place or appends it.
\<close>

fun setProp :: "string \<Rightarrow> 'a \<Rightarrow> (string \<times> 'a) list \<Rightarrow> (string \<times> 'a) list" where
  "setProp k v [] = [(k, v)]"
| "setProp k v (p # ps) = (if fst p = k then (k, v) # ps else p # setProp k v ps)"

definition getProp :: "(string \<times> 'a) list \<Rightarrow> string \<Rightarrow> 'a option" where
  "getProp obj k = map_of obj k"

text \<open>
  Besides its own properties a plain object (\<open>{}\<close>, or a copy \<open>{...obj}\<close>) has the
  properties of \<open>Object.prototype\<close>; \<open>inheritedKeys\<close> are their names. Reading one of
  them from an object that has no own property of that name gives a function, or for
  \<open>__proto__\<close> the prototype itself: a truthy value in both cases. \<open>inheritedText\<close> is
  the text of that value, which \<open>String\<close> returns and \<open>+\<close> concatenates, as Node prints
  it.
\<close>

definition inheritedKeys :: "string list" where
  "inheritedKeys =
     [''constructor'', ''__defineGetter__'', ''__defineSetter__'', ''hasOwnProperty'',
      ''__lookupGetter__'', ''__lookupSetter__'', ''isPrototypeOf'', ''propertyIsEnumerable'',
      ''toString'', ''valueOf'', ''__proto__'', ''toLocaleString'']"

definition inheritedText :: "string \<Rightarrow> string" where
  "inheritedText k =
     (if k = ''__proto__'' then ''[object Object]''
      else ''function '' @ (if k = ''constructor'' then ''Object'' else k)
           @ ''() { [native code] }'')"

text \<open>
  \<open>obj[k] = v\<close> on a plain object. The assignment to \<open>__proto__\<close> of an object that has
  no own property of that name goes to the setter the object inherits, which adds no
  property: it replaces the prototype when \<open>v\<close> is an object and does nothing otherwise.
  \<open>assignProp\<close> is the assignment to an object kept as a list, \<open>assign\<close> to one kept as
  a map of its own properties.
\<close>

definition assignProp :: "string \<Rightarrow> 'a \<Rightarrow> (string \<times> 'a) list \<Rightarrow> (string \<times> 'a) list" where
  "assignProp k v obj =
     (if k = ''__proto__'' \<and> getProp obj k = None then obj else setProp k v obj)"

definition assign :: "string \<Rightarrow> 'a \<Rightarrow> (string \<Rightarrow> 'a option) \<Rightarrow> (string \<Rightarrow> 'a option)" where
  "assign k v obj = (if k = ''__proto__'' \<and> obj k = None then obj else obj(k \<mapsto> v))"

text \<open>
  The value of a counter: a number, or the string that \<open>+\<close> makes of it once one operand
  is not a number. Such a string contains the text of an inherited value, so it does
  not read as a number: a difference with it is \<open>NaN\<close>, here \<open>None\<close>.
\<close>

datatype jsval = VNum int | VStr string

fun truthyVal :: "jsval \<Rightarrow> bool" where
  "truthyVal (VNum n) = (n \<noteq> 0)"
| "truthyVal (VStr t) = (t \<noteq> [])"

fun valText :: "jsval \<Rightarrow> string" where
  "valText (VNum n) = showInt n"
| "valText (VStr t) = t"

fun jsPlus :: "jsval \<Rightarrow> jsval \<Rightarrow> jsval" where
  "jsPlus (VNum a) (VNum b) = VNum (a + b)"
| "jsPlus a b = VStr (valText a @ valText b)"

fun jsMinus :: "jsval \<Rightarrow> jsval \<Rightarrow> int option" where
  "jsMinus (VNum a) (VNum b) = Some (a - b)"
| "jsMinus a b = None"

text \<open>
  \<open>obj[k] = (obj[k] || 0) + n\<close> on a plain object of counters: the old value is the
  own property, or else the inherited one, or else 0.
\<close>

definition addTo :: "string \<Rightarrow> jsval \<Rightarrow> (string \<times> jsval) list \<Rightarrow> (string \<times> jsval) list" where
  "addTo k n obj =
     (let old = (case getProp obj k of
                   Some v \<Rightarrow> if truthyVal v then v else VNum 0
                 | None \<Rightarrow> if k \<in> set inheritedKeys then VStr (inheritedText k) else VNum 0)
      in assignProp k (jsPlus old n) obj)"

text \<open>
  \<open>Object.entries(obj)\<close> lists the keys that are array indices first, in ascending
  numeric order, and then the other keys in insertion order. An array index is the
  canonical decimal numeral of a number below \<open>2^32 - 1\<close>.
\<close>

definition isDigit :: "char \<Rightarrow> bool" where
  "isDigit c = (c \<in> set ''0123456789'')"

definition digitVal :: "char \<Rightarrow> int" where
  "digitVal c = of_char c - of_char (CHR ''0'')"

definition decimalVal :: "string \<Rightarrow> int" where
  "decimalVal s = foldl (\<lambda>acc c. 10 * acc + digitVal c) 0 s"

definition isArrayIndex :: "string \<Rightarrow> bool" where
  "isArrayIndex s =
     (s \<noteq> [] \<and> list_all isDigit s \<and> (s = ''0'' \<or> hd s \<noteq> CHR ''0'')
      \<and> decimalVal s < 4294967295)"

definition objectEntries :: "(string \<times> 'a) list \<Rightarrow> (string \<times> 'a) list" where
  "objectEntries obj =
     sortBy (\<lambda>a b. decimalVal (fst a) - decimalVal (fst b))
       (filter (\<lambda>p. isArrayIndex (fst p)) obj)
     @ filter (\<lambda>p. \<not> isArrayIndex (fst p)) obj"

section \<open>Edit distance and similarity (nameNormalizer.js)\<close>

text \<open>
  \<open>levenshteinDistance\<close> fills the table \<open>dp\<close> row by row. \<open>levFill\<close> computes the
  cells \<open>dp[i][1..n]\<close> from the row \<open>dp[i-1]\<close>: \<open>pd\<close> is \<open>dp[i-1][j-1]\<close>, \<open>pu\<close> is
  \<open>dp[i-1][j]\<close> and \<open>left\<close> is \<open>dp[i][j-1]\<close>.
\<close>

fun levFill :: "char \<Rightarrow> string \<Rightarrow> nat list \<Rightarrow> nat \<Rightarrow> nat list" where
  "levFill c (d # ds) (pd # pu # prev) left =
     (let v = (if c = d then pd else 1 + min pu (min left pd))
      in v # levFill c ds (pu # prev) v)"
| "levFill c ds prev left = []"

definition levRow :: "string \<Rightarrow> nat \<times> char \<Rightarrow> nat list \<Rightarrow> nat list" where
  "levRow str2 ic prev = fst ic # levFill (snd ic) str2 prev (fst ic)"

definition levenshteinDistance :: "string \<Rightarrow> string \<Rightarrow> nat" where
  "levenshteinDistance str1 str2 =
     last (fold (levRow str2) (zip [1 ..< Suc (length str1)] str1) [0 ..< Suc (length str2)])"

text \<open>
  The similarity score is a double in the source; here it is the exact rational
  \<open>1 - distance / maxLen\<close>.
\<close>

definition similarity :: "string \<Rightarrow> string \<Rightarrow> rat" where
  "similarity str1 str2 =
     (let maxLen = max (length str1) (length str2)
      in if maxLen = 0 then 1
         else 1 - rat_of_nat (levenshteinDistance str1 str2) / rat_of_nat maxLen)"

section \<open>Grouping of name variants (nameNormalizer.js)\<close>

text \<open>
  An element of the array given to \<open>groupSimilarNames\<close> is a string or an object
  \<open>{name, count}\<close>. \<open>name.name || name\<close> is the name, or the element itself when it has no
  non-empty \<open>name\<close>; \<open>name.count || 1\<close> replaces a missing or zero count by 1. A count is
  a number; \<open>createNameMapping\<close> below can hand over a string.
\<close>

datatype nameArg = NameStr string | NameObj string jsval

datatype original = OStr string | OObj nameArg

fun rawName :: "nameArg \<Rightarrow> string" where
  "rawName (NameStr s) = s"
| "rawName (NameObj n c) = n"

fun originalOf :: "nameArg \<Rightarrow> original" where
  "originalOf (NameStr s) = OStr s"
| "originalOf (NameObj n c) = (if n \<noteq> [] then OStr n else OObj (NameObj n c))"

fun countOf :: "nameArg \<Rightarrow> jsval" where
  "countOf (NameStr s) = VNum 1"
| "countOf (NameObj n c) = (if truthyVal c then c else VNum 1)"

text \<open>\<open>normalizeName\<close> on any value: a value that is not a string gives the empty string.\<close>

fun normalizeOriginal :: "original \<Rightarrow> string" where
  "normalizeOriginal (OStr s) = normalizeName s"
| "normalizeOriginal (OObj a) = []"

text \<open>The property key a value is converted to when it indexes an object.\<close>

fun propKey :: "original \<Rightarrow> string" where
  "propKey (OStr s) = s"
| "propKey (OObj a) = ''[object Object]''"

record nameEntry =
  original :: original
  normalized :: string
  count :: jsval

definition toNameEntry :: "nameArg \<Rightarrow> nameEntry" where
  "toNameEntry a =
     \<lparr>original = originalOf a, normalized = normalizeOriginal (originalOf a), count = countOf a\<rparr>"

datatype error = TypeError

text \<open>
  \<open>findCanonicalName\<close>: \<open>nameCounts\<close>, a plain object, sums the counts per key; the
  entries are sorted by count, then by the length of the normalised key, both descending;
  \<open>sorted[0][0]\<close> raises a \<open>TypeError\<close> when \<open>nameCounts\<close> has no entry.
\<close>

definition addCount :: "nameEntry \<Rightarrow> (string \<times> jsval) list \<Rightarrow> (string \<times> jsval) list" where
  "addCount e nameCounts = addTo (propKey (original e)) (count e) nameCounts"

definition canonicalOrder :: "string \<times> jsval \<Rightarrow> string \<times> jsval \<Rightarrow> int" where
  "canonicalOrder a b =
     (if snd b \<noteq> snd a
      then (case jsMinus (snd b) (snd a) of Some d \<Rightarrow> d | None \<Rightarrow> 0)
      else (let aClean = normalizeName (fst a); bClean = normalizeName (fst b)
            in int (length bClean) - int (length aClean)))"

definition findCanonicalName :: "nameEntry list \<Rightarrow> error + string" where
  "findCanonicalName nameGroup =
     (let nameCounts = fold addCount nameGroup [];
          sorted = sortBy canonicalOrder (objectEntries nameCounts)
      in case sorted of [] \<Rightarrow> Inl TypeError | p # ps \<Rightarrow> Inr (normalizeName (fst p)))"

record nameGroup =
  canonical :: string
  variants :: "original list"
  totalCount :: jsval

text \<open>The test that puts \<open>otherEntry\<close> into the group of the seed \<open>nameEntry\<close>.\<close>

definition isSimilar :: "rat \<Rightarrow> nameEntry \<Rightarrow> nameEntry \<Rightarrow> bool" where
  "isSimilar threshold nameEntry otherEntry =
     (let sim = similarity (normalized nameEntry) (normalized otherEntry)
      in if sim \<ge> threshold then True
         else (let lowerA = toLowerCase (normalized nameEntry);
                   lowerB = toLowerCase (normalized otherEntry)
               in if includesStr lowerA lowerB \<or> includesStr lowerB lowerA
                  then (let shorter = (if length lowerA < length lowerB then lowerA else lowerB)
                        in length shorter \<ge> 4)
                  else False))"

text \<open>One turn of the inner loop; the state is the group and the set \<open>processed\<close>.\<close>

definition scanStep ::
  "rat \<Rightarrow> nameEntry \<Rightarrow> nameEntry \<Rightarrow> nameEntry list \<times> original set
     \<Rightarrow> nameEntry list \<times> original set" where
  "scanStep threshold nameEntry otherEntry st =
     (if original otherEntry \<in> snd st then st
      else if isSimilar threshold nameEntry otherEntry
           then (fst st @ [otherEntry], insert (original otherEntry) (snd st))
           else st)"

text \<open>The outer loop over the seeds that are left, with the groups found so far.\<close>

fun groupLoop ::
  "rat \<Rightarrow> nameEntry list \<Rightarrow> nameEntry list \<Rightarrow> nameGroup list \<Rightarrow> original set
     \<Rightarrow> error + nameGroup list" where
  "groupLoop threshold nameData [] groups processed = Inr groups"
| "groupLoop threshold nameData (nameEntry # rest) groups processed =
     (if original nameEntry \<in> processed then groupLoop threshold nameData rest groups processed
      else
        let st = fold (scanStep threshold nameEntry) nameData
                   ([nameEntry], insert (original nameEntry) processed);
            group = fst st
        in if length group > 0
           then (case findCanonicalName group of
                   Inl e \<Rightarrow> Inl e
                 | Inr c \<Rightarrow>
                     groupLoop threshold nameData rest
                       (groups @ [\<lparr>canonical = c, variants = map original group,
                                   totalCount = fold (\<lambda>g sum. jsPlus sum (count g)) group
                                                  (VNum 0)\<rparr>])
                       (snd st))
           else groupLoop threshold nameData rest groups (snd st))"

definition groupSimilarNames :: "nameArg list \<Rightarrow> rat \<Rightarrow> error + nameGroup list" where
  "groupSimilarNames names threshold =
     (let nameData = map toNameEntry names;
          nameData = sortBy (\<lambda>a b. case jsMinus (count b) (count a) of
                                     Some d \<Rightarrow> d | None \<Rightarrow> 0) nameData
      in groupLoop threshold nameData nameData [] {})"


section \<open>Rows and cells\<close>

text \<open>
  A row maps column headers to cells. The sheet delivers unformatted values, so a cell is
  a string, a number or a boolean; the sheet loader builds the rows without a prototype,
  so a header the row does not have reads as \<open>undefined\<close> (\<open>None\<close>). A number is
  modelled by its exact value together with the text that \<open>String(...)\<close> gives for it.
  \<open>Obj\<close> is a function or an object, given by the text that \<open>String(...)\<close> returns for
  it: the sheet delivers none, and \<open>applyNameMapping\<close> below can write one into a row.
\<close>

datatype cell = Str string | Num rat string | Bool bool | Obj string

type_synonym row = "string \<Rightarrow> cell option"

fun truthy :: "cell \<Rightarrow> bool" where
  "truthy (Str s) = (s \<noteq> [])"
| "truthy (Num v t) = (v \<noteq> 0)"
| "truthy (Bool b) = b"
| "truthy (Obj t) = True"

fun toString :: "cell \<Rightarrow> string" where
  "toString (Str s) = s"
| "toString (Num v t) = t"
| "toString (Bool b) = (if b then ''true'' else ''false'')"
| "toString (Obj t) = t"

text \<open>\<open>String(row[key] || '')\<close>\<close>

definition cellText :: "row \<Rightarrow> string \<Rightarrow> string" where
  "cellText row key =
     (case row key of None \<Rightarrow> [] | Some c \<Rightarrow> if truthy c then toString c else [])"

section \<open>Name mapping (nameNormalizer.js)\<close>

record nameMapping =
  mapping :: "string \<Rightarrow> string option"
  reverseMapping :: "string \<Rightarrow> original list option"
  groups :: "nameGroup list"
  totalOriginal :: nat
  totalNormalized :: nat

definition countName :: "string \<Rightarrow> row \<Rightarrow> (string \<times> jsval) list \<Rightarrow> (string \<times> jsval) list" where
  "countName facultyColumn row nameCounts =
     (let name = trim (cellText row facultyColumn)
      in if name \<noteq> [] then addTo name (VNum 1) nameCounts else nameCounts)"

definition addGroup ::
  "nameGroup \<Rightarrow> (string \<Rightarrow> string option) \<times> (string \<Rightarrow> original list option)
     \<Rightarrow> (string \<Rightarrow> string option) \<times> (string \<Rightarrow> original list option)" where
  "addGroup grp mr =
     (let reverseMapping = (snd mr)(canonical grp \<mapsto> variants grp);
          mapping = fold (\<lambda>variant m. m(propKey variant \<mapsto> canonical grp))
                      (variants grp) (fst mr)
      in (mapping, reverseMapping))"

definition createNameMapping :: "row list \<Rightarrow> string \<Rightarrow> error + nameMapping" where
  "createNameMapping data facultyColumn =
     (let nameCounts = fold (countName facultyColumn) data [];
          nameArray = map (\<lambda>p. NameObj (fst p) (snd p)) (objectEntries nameCounts)
      in case groupSimilarNames nameArray (3 / 4) of
           Inl e \<Rightarrow> Inl e
         | Inr gs \<Rightarrow>
             (let mr = fold addGroup gs (Map.empty, Map.empty)
              in Inr \<lparr>mapping = fst mr, reverseMapping = snd mr, groups = gs,
                      totalOriginal = length nameCounts, totalNormalized = length gs\<rparr>))"

text \<open>
  \<open>applyNameMapping\<close>: the mapping is a plain object, given by its own properties, so
  \<open>mapping[originalName]\<close> finds an own property or else an inherited one. The new row
  \<open>{...row}\<close> is a plain object too.
\<close>

definition applyNameMapping ::
  "row list \<Rightarrow> string \<Rightarrow> (string \<Rightarrow> string option) \<Rightarrow> row list" where
  "applyNameMapping data facultyColumn mp =
     map (\<lambda>row.
            let originalName = trim (cellText row facultyColumn);
                found = (case mp originalName of
                           Some c \<Rightarrow> Some (Str c)
                         | None \<Rightarrow>
                             if originalName \<in> set inheritedKeys
                             then Some (Obj (inheritedText originalName)) else None)
            in case found of
                 None \<Rightarrow> row
               | Some v \<Rightarrow>
                   if originalName \<noteq> [] \<and> truthy v
                   then assign ''_originalFacultyName'' (Str originalName)
                          (assign facultyColumn v row)
                   else row)
         data"

section \<open>Filtering (analytics.js)\<close>

text \<open>
  The filter state is an object from category to the list of selected values. For the
  faculty column every selected name is expanded to the variants of its canonical name.
\<close>

definition expandSelected :: "nameMapping \<Rightarrow> string \<Rightarrow> original set \<Rightarrow> original set" where
  "expandSelected nm selectedName expandedValues =
     (let canonicalName = (case mapping nm selectedName of
                             None \<Rightarrow> selectedName
                           | Some c \<Rightarrow> if c \<noteq> [] then c else selectedName);
          variants = (case reverseMapping nm canonicalName of
                        None \<Rightarrow> [OStr selectedName]
                      | Some vs \<Rightarrow> vs)
      in fold insert variants expandedValues)"

definition filterEntry ::
  "nameMapping option \<Rightarrow> string option \<Rightarrow> string \<times> string list \<Rightarrow> string \<times> original set" where
  "filterEntry nameMapping facultyColumn kv =
     (case nameMapping of
        Some nm \<Rightarrow>
          if Some (fst kv) = facultyColumn
          then (fst kv, fold (expandSelected nm) (snd kv) {})
          else (fst kv, OStr ` set (snd kv))
      | None \<Rightarrow> (fst kv, OStr ` set (snd kv)))"

definition rowMatches :: "(string \<times> original set) list \<Rightarrow> row \<Rightarrow> bool" where
  "rowMatches filterEntries row =
     list_all (\<lambda>kv. OStr (trim (cellText row (fst kv))) \<in> snd kv) filterEntries"

definition applyFilters ::
  "row list \<Rightarrow> (string \<times> string list) list \<Rightarrow> nameMapping option \<Rightarrow> string option
     \<Rightarrow> row list" where
  "applyFilters data filters nameMapping facultyColumn =
     (if length filters = 0 then data
      else
        let filterEntries =
              map (filterEntry nameMapping facultyColumn)
                (filter (\<lambda>kv. length (snd kv) > 0) (objectEntries filters))
        in if length filterEntries = 0 then data
           else filter (rowMatches filterEntries) data)"


section \<open>Question columns and scores (analytics.js)\<close>

text \<open>
  Numbers are doubles in the source. Here a number is an exact rational, and \<open>None\<close> at
  the type \<open>rat option\<close> stands for \<open>NaN\<close>; the two agree wherever the doubles involved
  are exact, as they are for sums and means of a few small integers.
\<close>

definition LIKERT_MAPPING :: "(string \<times> int) list" where
  "LIKERT_MAPPING =
     [(''strongly agree'', 5), (''agree'', 4), (''neutral'', 3), (''disagree'', 2),
      (''strongly disagree'', 1), (''excellent'', 5), (''very good'', 4), (''good'', 3),
      (''satisfactory'', 2), (''poor'', 1),
      (''5'', 5), (''4'', 4), (''3'', 3), (''2'', 2), (''1'', 1)]"

definition metadataPatterns :: "string list" where
  "metadataPatterns =
     [''timestamp'', ''email'', ''school name'', ''department'', ''semester'',
      ''class-section'', ''name of faculty'', ''course name'', ''special remark'']"

definition isMetadata :: "string \<Rightarrow> bool" where
  "isMetadata headerLower =
     list_ex (\<lambda>pattern. headerLower = pattern \<or> startsWith headerLower pattern \<or>
                (includesStr headerLower ''remark'' \<and> includesStr headerLower ''special''))
       metadataPatterns"

text \<open>
  The loop over the sample rows, with its \<open>break\<close> at the first Likert text. The result is
  the pair \<open>(hasLikertResponses, hasNumericRatings)\<close>. \<open>parseFloat\<close> is the built-in of the
  language and a parameter here: \<open>None\<close> is a result that is not a finite number.
\<close>

fun sampleScan :: "(string \<Rightarrow> rat option) \<Rightarrow> string \<Rightarrow> row list \<Rightarrow> bool \<Rightarrow> bool \<times> bool" where
  "sampleScan parseFloat header [] hasNumericRatings = (False, hasNumericRatings)"
| "sampleScan parseFloat header (row # rest) hasNumericRatings =
     (let val = trim (toLowerCase (cellText row header))
      in if getProp LIKERT_MAPPING val \<noteq> None then (True, hasNumericRatings)
         else sampleScan parseFloat header rest
                (hasNumericRatings \<or>
                 (case parseFloat val of None \<Rightarrow> False | Some num \<Rightarrow> num \<ge> 1 \<and> num \<le> 5)))"

definition isQuestionColumn :: "(string \<Rightarrow> rat option) \<Rightarrow> row list \<Rightarrow> string \<Rightarrow> bool" where
  "isQuestionColumn parseFloat data header =
     (let sampleSize = min 100 (length data);
          headerLower = trim (toLowerCase header)
      in if length (trim header) < 15 then False
         else if isMetadata headerLower then False
         else (let found = sampleScan parseFloat header (take sampleSize data) False
               in fst found \<or> snd found))"

definition identifyQuestionColumns ::
  "(string \<Rightarrow> rat option) \<Rightarrow> string list \<Rightarrow> row list \<Rightarrow> string list" where
  "identifyQuestionColumns parseFloat headers data =
     filter (isQuestionColumn parseFloat data) headers"

text \<open>\<open>Math.round(x)\<close> and \<open>Math.round(x * 100) / 100\<close>\<close>

definition mathRound :: "rat \<Rightarrow> int" where
  "mathRound x = \<lfloor>x + 1 / 2\<rfloor>"

definition round2 :: "rat \<Rightarrow> rat" where
  "round2 x = rat_of_int (mathRound (x * 100)) / 100"

text \<open>The score of one answer: the variable \<open>score\<close> after the \<open>if\<close>, \<open>None\<close> for \<open>undefined\<close>.\<close>

definition answerScore :: "row \<Rightarrow> string \<Rightarrow> int option" where
  "answerScore row q =
     (case row q of
        Some (Num v t) \<Rightarrow>
          if v \<ge> 1 \<and> v \<le> 5 then Some (mathRound v)
          else getProp LIKERT_MAPPING (trim (toLowerCase (cellText row q)))
      | _ \<Rightarrow> getProp LIKERT_MAPPING (trim (toLowerCase (cellText row q))))"

record distribution =
  stronglyAgree :: nat
  agree :: nat
  neutral :: nat
  disagree :: nat
  stronglyDisagree :: nat

record questionScore =
  question :: string
  score :: rat
  distribution :: distribution
  validResponses :: nat

definition countAnswer :: "int \<Rightarrow> distribution \<Rightarrow> distribution" where
  "countAnswer s d =
     (if s = 5 then d\<lparr>stronglyAgree := stronglyAgree d + 1\<rparr>
      else if s = 4 then d\<lparr>agree := agree d + 1\<rparr>
      else if s = 3 then d\<lparr>neutral := neutral d + 1\<rparr>
      else if s = 2 then d\<lparr>disagree := disagree d + 1\<rparr>
      else if s = 1 then d\<lparr>stronglyDisagree := stronglyDisagree d + 1\<rparr>
      else d)"

definition tally :: "string \<Rightarrow> row \<Rightarrow> int \<times> nat \<times> distribution \<Rightarrow> int \<times> nat \<times> distribution" where
  "tally q row st =
     (case answerScore row q of
        None \<Rightarrow> st
      | Some s \<Rightarrow>
          if s \<ge> 1 \<and> s \<le> 5
          then (fst st + s, fst (snd st) + 1, countAnswer s (snd (snd st)))
          else st)"

definition calculateQuestionScores :: "row list \<Rightarrow> string list \<Rightarrow> questionScore list" where
  "calculateQuestionScores data questionColumns =
     map (\<lambda>q.
            let st = fold (tally q) data
                       (0, 0, \<lparr>stronglyAgree = 0, agree = 0, neutral = 0, disagree = 0,
                               stronglyDisagree = 0\<rparr>);
                totalScore = fst st;
                valid = fst (snd st);
                avgScore = (if valid > 0 then rat_of_int totalScore / rat_of_nat valid else 0)
            in \<lparr>question = q, score = round2 avgScore, distribution = snd (snd st),
                validResponses = valid\<rparr>)
         questionColumns"

text \<open>
  The mean of the valid answers of one row (\<open>rowScore / validQuestions\<close>), \<open>None\<close> when the
  row has no valid answer and contributes nothing.
\<close>

definition rowAverage :: "string list \<Rightarrow> row \<Rightarrow> rat option" where
  "rowAverage questionColumns row =
     (let st = fold (\<lambda>q st. case answerScore row q of
                                 None \<Rightarrow> st
                               | Some s \<Rightarrow> if s \<ge> 1 \<and> s \<le> 5 then (fst st + s, snd st + 1) else st)
                 questionColumns (0::int, 0::nat)
      in if snd st > 0 then Some (rat_of_int (fst st) / rat_of_nat (snd st)) else None)"

text \<open>\<open>scores.reduce((a, b) => a + b, 0) / scores.length\<close>, which is \<open>NaN\<close> for no scores.\<close>

definition meanScore :: "rat list \<Rightarrow> rat option" where
  "meanScore scores =
     (if scores = [] then None else Some (sum_list scores / rat_of_nat (length scores)))"

definition roundedMean :: "rat list \<Rightarrow> rat option" where
  "roundedMean scores = map_option round2 (meanScore scores)"

text \<open>The sign of \<open>x - y\<close> as a comparator result; a \<open>NaN\<close> difference counts as zero.\<close>

definition subCmp :: "rat option \<Rightarrow> rat option \<Rightarrow> int" where
  "subCmp x y =
     (case (x, y) of
        (Some a, Some b) \<Rightarrow> (if a < b then - 1 else if a = b then 0 else 1)
      | _ \<Rightarrow> 0)"


section \<open>Roll-ups (analytics.js)\<close>

text \<open>\<open>row[column]\<close> as a condition, and a \<open>Set\<close> of strings in insertion order.\<close>

definition cellTruthy :: "row \<Rightarrow> string \<Rightarrow> bool" where
  "cellTruthy row key = (case row key of None \<Rightarrow> False | Some c \<Rightarrow> truthy c)"

definition setAdd :: "'a \<Rightarrow> 'a list \<Rightarrow> 'a list" where
  "setAdd x xs = (if x \<in> set xs then xs else xs @ [x])"

definition findColumn :: "string list \<Rightarrow> string list \<Rightarrow> string option" where
  "findColumn keywords headers =
     find (\<lambda>h. list_ex (\<lambda>k. includesStr (toLowerCase h) k) keywords) headers"

definition getRatingLabel :: "rat option \<Rightarrow> string" where
  "getRatingLabel s =
     (case s of
        None \<Rightarrow> ''Needs Improvement''
      | Some x \<Rightarrow>
          if x \<ge> 9 / 2 then ''Excellent''
          else if x \<ge> 4 then ''Very Good''
          else if x \<ge> 7 / 2 then ''Good''
          else if x \<ge> 3 then ''Satisfactory''
          else ''Needs Improvement'')"

record groupScore =
  name :: string
  score_g :: "rat option"
  count_g :: nat

definition groupStep ::
  "string \<Rightarrow> string list \<Rightarrow> row \<Rightarrow> (string \<times> rat list \<times> nat) list
     \<Rightarrow> (string \<times> rat list \<times> nat) list" where
  "groupStep groupColumn questionColumns row groupedData =
     (let groupValue = trim (cellText row groupColumn)
      in if groupValue = [] then groupedData
         else
           let groupedData = (if getProp groupedData groupValue = None
                              then setProp groupValue ([], 0) groupedData else groupedData)
           in case rowAverage questionColumns row of
                None \<Rightarrow> groupedData
              | Some avg \<Rightarrow>
                  (case getProp groupedData groupValue of
                     None \<Rightarrow> groupedData
                   | Some d \<Rightarrow> setProp groupValue (fst d @ [avg], snd d + 1) groupedData))"

definition calculateGroupScores ::
  "row list \<Rightarrow> string list \<Rightarrow> string \<Rightarrow> string list \<Rightarrow> groupScore list" where
  "calculateGroupScores data headers groupKeyword questionColumns =
     (case findColumn [groupKeyword] headers of
        None \<Rightarrow> []
      | Some groupColumn \<Rightarrow>
          if length questionColumns = 0 then []
          else take 10
                 (sortBy (\<lambda>a b. subCmp (score_g b) (score_g a))
                    (map (\<lambda>p. \<lparr>name = fst p, score_g = roundedMean (fst (snd p)),
                                count_g = snd (snd p)\<rparr>)
                       (objectEntries (fold (groupStep groupColumn questionColumns) data [])))))"

record facultyScore =
  name_f :: string
  score_f :: "rat option"
  feedbackCount :: nat
  coursesHandled :: "string list"
  sectionsHandled :: "string list"
  rating :: string
  rank :: nat

text \<open>The entry of one faculty name: scores, count, courses and sections.\<close>

type_synonym facultyEntry = "rat list \<times> nat \<times> string list \<times> string list"

definition facultyStep ::
  "string \<Rightarrow> string option \<Rightarrow> string option \<Rightarrow> string list \<Rightarrow> row
     \<Rightarrow> (string \<times> facultyEntry) list \<Rightarrow> (string \<times> facultyEntry) list" where
  "facultyStep facultyColumn courseColumn sectionColumn questionColumns row facultyData =
     (let facultyName = trim (cellText row facultyColumn)
      in if facultyName = [] then facultyData
         else
           let d0 = (case getProp facultyData facultyName of
                       None \<Rightarrow> ([], 0, [], []) | Some d \<Rightarrow> d);
               courses = (case courseColumn of
                            None \<Rightarrow> fst (snd (snd d0))
                          | Some cc \<Rightarrow>
                              if cellTruthy row cc
                              then setAdd (trim (cellText row cc)) (fst (snd (snd d0)))
                              else fst (snd (snd d0)));
               sections = (case sectionColumn of
                             None \<Rightarrow> snd (snd (snd d0))
                           | Some sc \<Rightarrow>
                               if cellTruthy row sc
                               then setAdd (trim (cellText row sc)) (snd (snd (snd d0)))
                               else snd (snd (snd d0)))
           in case rowAverage questionColumns row of
                None \<Rightarrow> setProp facultyName (fst d0, fst (snd d0), courses, sections) facultyData
              | Some avg \<Rightarrow>
                  setProp facultyName (fst d0 @ [avg], fst (snd d0) + 1, courses, sections)
                    facultyData)"

definition assignRanks :: "facultyScore list \<Rightarrow> facultyScore list" where
  "assignRanks fs = map (\<lambda>p. (snd p)\<lparr>rank := fst p + 1\<rparr>) (zip [0 ..< length fs] fs)"

definition calculateFacultyScores ::
  "row list \<Rightarrow> string list \<Rightarrow> string list \<Rightarrow> facultyScore list" where
  "calculateFacultyScores data headers questionColumns =
     (let facultyColumn = findColumn [''faculty'', ''teacher''] headers;
          courseColumn = findColumn [''course'', ''subject''] headers;
          sectionColumn = findColumn [''section'', ''class''] headers
      in case facultyColumn of
           None \<Rightarrow> []
         | Some fc \<Rightarrow>
             if length questionColumns = 0 then []
             else assignRanks
                    (sortBy (\<lambda>a b. subCmp (score_f b) (score_f a))
                       (map (\<lambda>p. \<lparr>name_f = fst p,
                                   score_f = roundedMean (fst (snd p)),
                                   feedbackCount = fst (snd (snd p)),
                                   coursesHandled = fst (snd (snd (snd p))),
                                   sectionsHandled = snd (snd (snd (snd p))),
                                   rating = getRatingLabel (meanScore (fst (snd p))),
                                   rank = 0\<rparr>)
                          (objectEntries
                             (fold (facultyStep fc courseColumn sectionColumn questionColumns)
                                data [])))))"

record sectionScore =
  section_s :: string
  semester :: string
  course :: string
  averageScore :: "rat option"
  feedbackCount_s :: nat

definition sectionStep ::
  "string \<Rightarrow> string option \<Rightarrow> string option \<Rightarrow> string list \<Rightarrow> row
     \<Rightarrow> (string \<times> (string \<times> string \<times> string) \<times> rat list \<times> nat) list
     \<Rightarrow> (string \<times> (string \<times> string \<times> string) \<times> rat list \<times> nat) list" where
  "sectionStep sectionColumn semesterColumn courseColumn questionColumns row sectionData =
     (let sec = trim (cellText row sectionColumn);
          sem = (case semesterColumn of None \<Rightarrow> [] | Some c \<Rightarrow> trim (cellText row c));
          crs = (case courseColumn of None \<Rightarrow> [] | Some c \<Rightarrow> trim (cellText row c))
      in if sec = [] then sectionData
         else
           let key = sec @ ''|'' @ sem @ ''|'' @ crs;
               d0 = (case getProp sectionData key of
                       None \<Rightarrow> ((sec, sem, crs), [], 0) | Some d \<Rightarrow> d)
           in case rowAverage questionColumns row of
                None \<Rightarrow> setProp key d0 sectionData
              | Some avg \<Rightarrow>
                  setProp key (fst d0, fst (snd d0) @ [avg], snd (snd d0) + 1) sectionData)"

definition calculateSectionScores ::
  "row list \<Rightarrow> string list \<Rightarrow> string list \<Rightarrow> sectionScore list" where
  "calculateSectionScores data headers questionColumns =
     (let sectionColumn = findColumn [''section'', ''class''] headers;
          semesterColumn = findColumn [''semester''] headers;
          courseColumn = findColumn [''course'', ''subject''] headers
      in case sectionColumn of
           None \<Rightarrow> []
         | Some sc \<Rightarrow>
             if length questionColumns = 0 then []
             else sortBy (\<lambda>a b. subCmp (averageScore b) (averageScore a))
                    (map (\<lambda>p. \<lparr>section_s = fst (fst (snd p)),
                                semester = fst (snd (fst (snd p))),
                                course = snd (snd (fst (snd p))),
                                averageScore = roundedMean (fst (snd (snd p))),
                                feedbackCount_s = snd (snd (snd p))\<rparr>)
                       (objectEntries
                          (fold (sectionStep sc semesterColumn courseColumn questionColumns)
                             data []))))"

record courseScore =
  courseName :: string
  averageScore_c :: "rat option"
  feedbackCount_c :: nat
  sections :: "string list"

definition courseStep ::
  "string \<Rightarrow> string option \<Rightarrow> string list \<Rightarrow> row
     \<Rightarrow> (string \<times> rat list \<times> nat \<times> string list) list
     \<Rightarrow> (string \<times> rat list \<times> nat \<times> string list) list" where
  "courseStep courseColumn sectionColumn questionColumns row courseData =
     (let crs = trim (cellText row courseColumn)
      in if crs = [] then courseData
         else
           let d0 = (case getProp courseData crs of None \<Rightarrow> ([], 0, []) | Some d \<Rightarrow> d);
               secs = (case sectionColumn of
                         None \<Rightarrow> snd (snd d0)
                       | Some sc \<Rightarrow>
                           if cellTruthy row sc
                           then setAdd (trim (cellText row sc)) (snd (snd d0))
                           else snd (snd d0))
           in case rowAverage questionColumns row of
                None \<Rightarrow> setProp crs (fst d0, fst (snd d0), secs) courseData
              | Some avg \<Rightarrow> setProp crs (fst d0 @ [avg], fst (snd d0) + 1, secs) courseData)"

definition calculateCourseScores ::
  "row list \<Rightarrow> string list \<Rightarrow> string list \<Rightarrow> courseScore list" where
  "calculateCourseScores data headers questionColumns =
     (let courseColumn = findColumn [''course'', ''subject''] headers;
          sectionColumn = findColumn [''section'', ''class''] headers
      in case courseColumn of
           None \<Rightarrow> []
         | Some cc \<Rightarrow>
             if length questionColumns = 0 then []
             else sortBy (\<lambda>a b. subCmp (averageScore_c b) (averageScore_c a))
                    (map (\<lambda>p. \<lparr>courseName = fst p,
                                averageScore_c = roundedMean (fst (snd p)),
                                feedbackCount_c = fst (snd (snd p)),
                                sections = snd (snd (snd p))\<rparr>)
                       (objectEntries
                          (fold (courseStep cc sectionColumn questionColumns) data []))))"

text \<open>
  \<open>a.localeCompare(b)\<close> is modelled by the order of the character codes. This agrees with
  the collation of the locale on strings of one shape, such as the week labels
  \<open>Jan W1\<close>, ..., \<open>Dec W5\<close>, and not on arbitrary text.
\<close>

fun localeCompare :: "string \<Rightarrow> string \<Rightarrow> int" where
  "localeCompare [] [] = 0"
| "localeCompare [] (b # bs) = - 1"
| "localeCompare (a # as) [] = 1"
| "localeCompare (a # as) (b # bs) =
     (if a = b then localeCompare as bs
      else if (of_char a :: nat) < of_char b then - 1 else 1)"

record semesterScore =
  semester_m :: string
  score_m :: "rat option"
  count_m :: nat

definition calculateSemesterScores ::
  "row list \<Rightarrow> string list \<Rightarrow> string list \<Rightarrow> semesterScore list" where
  "calculateSemesterScores data headers questionColumns =
     (case findColumn [''semester''] headers of
        None \<Rightarrow> []
      | Some semesterColumn \<Rightarrow>
          if length questionColumns = 0 then []
          else sortBy (\<lambda>a b. localeCompare (semester_m a) (semester_m b))
                 (map (\<lambda>p. \<lparr>semester_m = fst p, score_m = roundedMean (fst (snd p)),
                             count_m = snd (snd p)\<rparr>)
                    (objectEntries (fold (groupStep semesterColumn questionColumns) data []))))"


section \<open>Time trends (analytics.js)\<close>

text \<open>
  A parsed timestamp, read through the methods the code calls on it. \<open>new Date(timestamp)\<close>
  is a parameter \<open>parseDate\<close> of the functions below; \<open>None\<close> is an invalid date. The
  short month names are those of an English locale.
\<close>

record jsDate =
  getFullYear :: int
  getMonth :: nat
  getDate :: nat

definition monthShort :: "nat \<Rightarrow> string" where
  "monthShort m =
     (if m < 12
      then [''Jan'', ''Feb'', ''Mar'', ''Apr'', ''May'', ''Jun'',
            ''Jul'', ''Aug'', ''Sep'', ''Oct'', ''Nov'', ''Dec''] ! m
      else [])"

definition getWeekKey :: "jsDate \<Rightarrow> string" where
  "getWeekKey date =
     (let year = getFullYear date;
          month = monthShort (getMonth date);
          weekOfMonth = (getDate date + 6) div 7
      in month @ '' W'' @ showNat weekOfMonth)"

definition trendStep ::
  "(cell \<Rightarrow> jsDate option) \<Rightarrow> string \<Rightarrow> string list \<Rightarrow> row
     \<Rightarrow> (string \<times> rat list \<times> jsDate) list \<Rightarrow> (string \<times> rat list \<times> jsDate) list" where
  "trendStep parseDate timestampColumn questionColumns row weeklyData =
     (case row timestampColumn of
        None \<Rightarrow> weeklyData
      | Some timestamp \<Rightarrow>
          if \<not> truthy timestamp then weeklyData
          else (case parseDate timestamp of
                  None \<Rightarrow> weeklyData
                | Some date \<Rightarrow>
                    let weekKey = getWeekKey date;
                        d0 = (case getProp weeklyData weekKey of
                                None \<Rightarrow> ([], date) | Some d \<Rightarrow> d)
                    in case rowAverage questionColumns row of
                         None \<Rightarrow> setProp weekKey d0 weeklyData
                       | Some avg \<Rightarrow> setProp weekKey (fst d0 @ [avg], snd d0) weeklyData))"

record trend =
  label :: string
  value_t :: "rat option"

definition calculateTimeTrends ::
  "(cell \<Rightarrow> jsDate option) \<Rightarrow> row list \<Rightarrow> string list \<Rightarrow> string list \<Rightarrow> trend list" where
  "calculateTimeTrends parseDate data headers questionColumns =
     (case findColumn [''timestamp'', ''date'', ''time''] headers of
        None \<Rightarrow> []
      | Some timestampColumn \<Rightarrow>
          if length questionColumns = 0 then []
          else
            let weeklyData = fold (trendStep parseDate timestampColumn questionColumns) data [];
                sorted = sortBy (\<lambda>a b. localeCompare (fst a) (fst b)) (objectEntries weeklyData)
            in map (\<lambda>p. \<lparr>label = fst p, value_t = roundedMean (fst (snd p))\<rparr>)
                 (drop (length sorted - 10) sorted))"

section \<open>The analytics record (analytics.js)\<close>

record overallStats =
  totalFaculty :: nat
  totalCourses :: nat
  totalSections :: nat
  averageByParameter :: "questionScore list"

record analytics =
  totalResponses :: nat
  averageRating :: rat
  questionScores :: "questionScore list"
  departmentWise :: "groupScore list"
  timeTrends :: "trend list"
  facultyScores :: "facultyScore list"
  sectionWise :: "sectionScore list"
  courseWise :: "courseScore list"
  semesterWise :: "semesterScore list"
  overallStats :: overallStats
  topPerformers :: "facultyScore list"
  needsImprovement :: "facultyScore list"

definition uniqueCount :: "string option \<Rightarrow> row list \<Rightarrow> nat" where
  "uniqueCount col data =
     (case col of
        None \<Rightarrow> 0
      | Some c \<Rightarrow>
          length (fold (\<lambda>row acc. if cellTruthy row c then setAdd (trim (cellText row c)) acc
                                    else acc) data []))"

definition calculateAnalytics ::
  "(cell \<Rightarrow> jsDate option) \<Rightarrow> row list \<Rightarrow> string list \<Rightarrow> string list \<Rightarrow> analytics" where
  "calculateAnalytics parseDate data headers questionColumns =
     (let total = length data
      in if total = 0
         then \<lparr>totalResponses = 0, averageRating = 0, questionScores = [], departmentWise = [],
                timeTrends = [], facultyScores = [], sectionWise = [], courseWise = [],
                semesterWise = [],
                overallStats = \<lparr>totalFaculty = 0, totalCourses = 0, totalSections = 0,
                                 averageByParameter = []\<rparr>,
                topPerformers = [], needsImprovement = []\<rparr>
         else
           let qs = calculateQuestionScores data questionColumns;
               avg = (if length qs > 0 then sum_list (map score qs) / rat_of_nat (length qs)
                      else 0);
               fs = calculateFacultyScores data headers questionColumns;
               facultyCol = findColumn [''faculty'', ''teacher''] headers;
               courseCol = findColumn [''course'', ''subject''] headers;
               sectionCol = findColumn [''section'', ''class''] headers;
               sortedFaculty = sortBy (\<lambda>a b. subCmp (score_f b) (score_f a)) fs
           in \<lparr>totalResponses = total,
                averageRating = round2 avg,
                questionScores = qs,
                departmentWise = calculateGroupScores data headers ''department'' questionColumns,
                timeTrends = calculateTimeTrends parseDate data headers questionColumns,
                facultyScores = fs,
                sectionWise = calculateSectionScores data headers questionColumns,
                courseWise = calculateCourseScores data headers questionColumns,
                semesterWise = calculateSemesterScores data headers questionColumns,
                overallStats = \<lparr>totalFaculty = uniqueCount facultyCol data,
                                 totalCourses = uniqueCount courseCol data,
                                 totalSections = uniqueCount sectionCol data,
                                 averageByParameter = qs\<rparr>,
                topPerformers = take 5 sortedFaculty,
                needsImprovement =
                  take 5 (filter (\<lambda>f. case score_f f of None \<Rightarrow> False | Some x \<Rightarrow> x < 3)
                            sortedFaculty)\<rparr>)"

section \<open>Merge overlay of the dashboard\<close>

text \<open>
  The part of the dashboard state that \<open>handleConfirmMerge\<close> reads and writes.
  \<open>activeSheet\<close> holds the id of the active sheet, \<open>None\<close> when there is no sheet;
  \<open>mergedNames\<close> is the overlay, from category to canonical name to variants;
  \<open>saveRequests\<close> lists the calls of \<open>dataService.updateMergedNames\<close>, each with the sheet
  id and the overlay that is sent to be persisted. The overlay, its categories and the
  filter state are plain objects, given by their own properties.
\<close>

type_synonym mergedNamesMapping = "string \<Rightarrow> (string \<Rightarrow> string list option) option"

record dashboard =
  activeSheet :: "string option"
  mergedNames :: mergedNamesMapping
  filterState :: "string \<Rightarrow> string list option"
  showMergeModal :: bool
  mergeCategory :: string
  mergeSelectedNames :: "string list"
  mergeCanonicalName :: string
  saveRequests :: "(string \<times> mergedNamesMapping) list"

text \<open>
  The loop over the canonical names of the category: every group loses the selected
  names, and a group left empty is deleted.
\<close>

definition removeSelected ::
  "string list \<Rightarrow> (string \<Rightarrow> string list option) \<Rightarrow> (string \<Rightarrow> string list option)" where
  "removeSelected selected categoryMerges =
     (\<lambda>canonical.
        case categoryMerges canonical of
          None \<Rightarrow> None
        | Some vs \<Rightarrow>
            (let kept = filter (\<lambda>v. v \<notin> set selected) vs
             in if length kept = 0 then None else Some kept))"

text \<open>\<open>[...new Set(xs)]\<close>: the first occurrence of every element, in order.\<close>

definition uniq :: "'a list \<Rightarrow> 'a list" where
  "uniq xs = rev (remdups (rev xs))"

text \<open>
  \<open>handleConfirmMerge\<close>. The copy \<open>{...newMergedNames[mergeCategory]}\<close> of a value that
  is not an own property is empty. The two assignments are those of a plain object. In
  the update of the filter state \<open>prev[mergeCategory] || []\<close> is the own property or else
  an inherited value, which has no method \<open>filter\<close>: the update then raises a
  \<open>TypeError\<close>, which is the result here. The new filter state is an object literal
  with a computed key, which always becomes an own property.
\<close>

definition handleConfirmMerge :: "dashboard \<Rightarrow> error + dashboard" where
  "handleConfirmMerge s =
     (case activeSheet s of
        None \<Rightarrow> Inr s
      | Some sheetId \<Rightarrow>
          if mergeCanonicalName s = [] \<or> length (mergeSelectedNames s) < 2 \<or> sheetId = []
          then Inr s
          else
            let categoryMerges = (case mergedNames s (mergeCategory s) of
                                    None \<Rightarrow> Map.empty | Some cm \<Rightarrow> cm);
                categoryMerges = removeSelected (mergeSelectedNames s) categoryMerges;
                categoryMerges = assign (mergeCanonicalName s) (mergeSelectedNames s)
                                   categoryMerges;
                newMergedNames = assign (mergeCategory s) categoryMerges (mergedNames s)
            in if filterState s (mergeCategory s) = None \<and> mergeCategory s \<in> set inheritedKeys
               then Inl TypeError
               else
                 let currentValues = (case filterState s (mergeCategory s) of
                                        None \<Rightarrow> [] | Some vs \<Rightarrow> vs);
                     otherValues = filter (\<lambda>v. v \<notin> set (mergeSelectedNames s)) currentValues;
                     newValues = uniq (otherValues @ mergeSelectedNames s)
                 in Inr (s\<lparr>mergedNames := newMergedNames,
                           filterState := (filterState s)(mergeCategory s \<mapsto> newValues),
                           saveRequests := saveRequests s @ [(sheetId, newMergedNames)],
                           showMergeModal := False,
                           mergeCategory := [],
                           mergeSelectedNames := [],
                           mergeCanonicalName := []\<rparr>))"

section \<open>Example data\<close>

definition questionHeader :: string where
  "questionHeader = ''The faculty explains concepts clearly and confidently''"

definition questionRows :: "row list" where
  "questionRows =
     map (\<lambda>v. [questionHeader \<mapsto> Str v]) [''Strongly Agree'', ''Agree'', ''Agree'', ''Neutral'']"

text \<open>Two rows whose faculty names consist of dots only.\<close>

definition dotRows :: "row list" where
  "dotRows = [[''Name of Faculty'' \<mapsto> Str ''.''], [''Name of Faculty'' \<mapsto> Str ''..'']]"

text \<open>Two answers, one of January and one of February of the same year.\<close>

definition trendRows :: "row list" where
  "trendRows =
     [[''Timestamp'' \<mapsto> Str ''1/5/2024'', ''Rating of the course'' \<mapsto> Num 5 ''5''],
      [''Timestamp'' \<mapsto> Str ''2/5/2024'', ''Rating of the course'' \<mapsto> Num 3 ''3'']]"

definition trendDates :: "cell \<Rightarrow> jsDate option" where
  "trendDates =
     map_of [(Str ''1/5/2024'', \<lparr>getFullYear = 2024, getMonth = 0, getDate = 5\<rparr>),
             (Str ''2/5/2024'', \<lparr>getFullYear = 2024, getMonth = 1, getDate = 5\<rparr>)]"

definition facultyRows :: "row list" where
  "facultyRows =
     [[''Faculty'' \<mapsto> Str ''Dr. Rao'', ''Course'' \<mapsto> Str ''Algebra''],
      [''Faculty'' \<mapsto> Str ''Sen'', ''Course'' \<mapsto> Str ''Logic'']]"

text \<open>A dashboard with a merge dialog filled in and no active sheet.\<close>

definition noSheetState :: dashboard where
  "noSheetState =
     \<lparr>activeSheet = None, mergedNames = Map.empty, filterState = Map.empty,
      showMergeModal = True, mergeCategory = ''Faculty'',
      mergeSelectedNames = [''Dr. Rao'', ''RAO''], mergeCanonicalName = ''Rao'',
      saveRequests = []\<rparr>"

definition mergeState :: dashboard where
  "mergeState =
     \<lparr>activeSheet = Some ''sheet1'',
      mergedNames = [''Faculty'' \<mapsto> [''Rao R'' \<mapsto> [''Dr. Rao'', ''Rao Sir''], ''Sen'' \<mapsto> [''RAO'']]],
      filterState = Map.empty,
      showMergeModal = True, mergeCategory = ''Faculty'',
      mergeSelectedNames = [''Dr. Rao'', ''RAO''], mergeCanonicalName = ''Rao'',
      saveRequests = []\<rparr>"


text \<open>Rows that have a course column and no section column.\<close>

definition unknownRows :: "row list" where
  "unknownRows = [[''Course'' \<mapsto> Str ''Algebra''], [''Course'' \<mapsto> Str ''Logic'']]"

text \<open>A numeric rating column, next to a short column, and a table standing for \<open>parseFloat\<close>.\<close>

definition ratingHeader :: string where
  "ratingHeader = ''Overall rating of the course''"

definition ratingRows :: "row list" where
  "ratingRows =
     [[ratingHeader \<mapsto> Str ''n/a'', ''Email'' \<mapsto> Str ''4''], [ratingHeader \<mapsto> Str '' 4.5 '']]"

definition ratingParse :: "string \<Rightarrow> rat option" where
  "ratingParse = map_of [(''4.5'', 9 / 2), (''4'', 4)]"

text \<open>
  The number a counter holds, and the sum of the occurrence counts of the entries of a
  group whose key is \<open>k\<close>. \<open>plainGroup\<close> describes a group whose counts are numbers and
  whose keys are not names of inherited properties.
\<close>

fun numOf :: "jsval \<Rightarrow> int" where
  "numOf (VNum n) = n"
| "numOf (VStr t) = 0"

fun isNum :: "jsval \<Rightarrow> bool" where
  "isNum (VNum n) = True"
| "isNum (VStr t) = False"

definition totalCountOf :: "nameEntry list \<Rightarrow> string \<Rightarrow> int" where
  "totalCountOf nameGroup k =
     sum_list (map (\<lambda>e. numOf (count e)) (filter (\<lambda>e. propKey (original e) = k) nameGroup))"

definition plainGroup :: "nameEntry list \<Rightarrow> bool" where
  "plainGroup nameGroup =
     list_all (\<lambda>e. isNum (count e) \<and> propKey (original e) \<notin> set inheritedKeys) nameGroup"

text \<open>A group in which two raw names tie on the count.\<close>

definition tieGroup :: "nameEntry list" where
  "tieGroup =
     [\<lparr>original = OStr ''Rao'', normalized = ''Rao'', count = VNum 2\<rparr>,
      \<lparr>original = OStr ''Dr. Rao'', normalized = ''Rao'', count = VNum 1\<rparr>,
      \<lparr>original = OStr ''Rao'', normalized = ''Rao'', count = VNum 1\<rparr>,
      \<lparr>original = OStr ''RAO Kumar'', normalized = ''Rao Kumar'', count = VNum 3\<rparr>]"

text \<open>Three name variants with their counts.\<close>

definition variantNames :: "nameArg list" where
  "variantNames = [NameObj ''Rao'' (VNum 2), NameObj ''RAO'' (VNum 1), NameObj ''Sen'' (VNum 4)]"

text \<open>
  A group of the name \<open>constructor\<close>, seen once, and the name \<open>Rao\<close>, seen five times;
  and two similar names that tie on the count, the shorter of which is \<open>constructor\<close>.
\<close>

definition inheritedGroup :: "nameEntry list" where
  "inheritedGroup =
     [\<lparr>original = OStr ''constructor'', normalized = ''Constructor'', count = VNum 1\<rparr>,
      \<lparr>original = OStr ''Rao'', normalized = ''Rao'', count = VNum 5\<rparr>]"

definition tiedNames :: "nameArg list" where
  "tiedNames = [NameObj ''constructor'' (VNum 2), NameObj ''Constructors'' (VNum 2)]"

text \<open>
  Six rows of a sheet: the faculty name is \<open>constructor\<close> in the first and
  \<open>Constructors\<close> in the other five.
\<close>

definition constructorRows :: "row list" where
  "constructorRows =
     [''Faculty'' \<mapsto> Str ''constructor''] # replicate 5 [''Faculty'' \<mapsto> Str ''Constructors'']"

text \<open>Rows whose faculty cell is the name of an inherited property.\<close>

definition inheritedRows :: "row list" where
  "inheritedRows = [[''Faculty'' \<mapsto> Str ''constructor'', ''Course'' \<mapsto> Str ''Algebra'']]"

definition protoRows :: "row list" where
  "protoRows = [[''Faculty'' \<mapsto> Str ''__proto__'', ''Course'' \<mapsto> Str ''Logic'']]"

section \<open>Words that a second normalisation strips\<close>

text \<open>
  \<open>hasHonorific s\<close>: the text \<open>s\<close>, in lower case, has more than one word and begins with a
  word of the prefix list or ends with a word of the suffix list. \<open>plainWord\<close> describes
  the words \<open>normalizeName\<close> capitalises: not empty, in lower case, without white space
  and without dots.
\<close>

definition hasHonorific :: "string \<Rightarrow> bool" where
  "hasHonorific s =
     (let ws = splitWords (toLowerCase s)
      in length ws > 1 \<and> (hd ws \<in> set PREFIXES \<or> last ws \<in> set SUFFIXES))"

definition plainWord :: "string \<Rightarrow> bool" where
  "plainWord w =
     (w \<noteq> [] \<and> list_all (\<lambda>c. \<not> isSpace c \<and> c \<noteq> CHR ''.'' \<and> toLowerChar c = c) w)"

definition nameWords :: "string \<Rightarrow> string list" where
  "nameWords nm =
     removeSuffix (removePrefix (splitWords (replaceSpacedDots (replaceDots
       (collapseSpaces (trim (toLowerCase nm)))))))"

section \<open>The analytics of an empty row set\<close>

text \<open>
  Claim C8. For a row set of zero rows \<open>calculateAnalytics\<close> returns the zero-valued
  record: no responses, average rating 0, and empty lists for the question scores, for
  the department, faculty, section, course and semester roll-ups, for the time trends,
  the top performers and the faculty needing improvement. The function is total, so
  this is a result and not a failure.
\<close>

theorem calculateAnalytics_empty:
  "calculateAnalytics parseDate [] headers questionColumns =
     \<lparr>totalResponses = 0, averageRating = 0, questionScores = [], departmentWise = [],
      timeTrends = [], facultyScores = [], sectionWise = [], courseWise = [],
      semesterWise = [],
      overallStats = \<lparr>totalFaculty = 0, totalCourses = 0, totalSections = 0,
                       averageByParameter = []\<rparr>,
      topPerformers = [], needsImprovement = []\<rparr>"
  by (simp add: calculateAnalytics_def)

section \<open>The frame of applyNameMapping\<close>

text \<open>
  \<open>applyNameMapping\<close> keeps the number and the order of the rows, and in the row at every
  position each field other than the faculty column and \<open>_originalFacultyName\<close> is the
  field of the input row at that position. A row whose faculty cell is empty, or is
  neither a key of the mapping nor the name of an inherited property, is returned as it
  is.
\<close>

lemma applyNameMapping_frame:
  "length (applyNameMapping data fc m) = length data \<and>
   (\<forall>i<length data.
      (\<forall>k. k \<noteq> fc \<and> k \<noteq> ''_originalFacultyName''
            \<longrightarrow> (applyNameMapping data fc m ! i) k = (data ! i) k) \<and>
      (trim (cellText (data ! i) fc) = [] \<or>
       m (trim (cellText (data ! i) fc)) = None \<and>
       trim (cellText (data ! i) fc) \<notin> set inheritedKeys
         \<longrightarrow> applyNameMapping data fc m ! i = data ! i))"
  by (auto simp: applyNameMapping_def assign_def Let_def split: option.splits)

text \<open>
  For example, a mapped name replaces the faculty cell and is kept under
  \<open>_originalFacultyName\<close>, and a name that is not mapped leaves its row alone.
\<close>

lemma applyNameMapping_example:
  "map (applyNameMapping facultyRows ''Faculty'' [''Dr. Rao'' \<mapsto> ''Rao''] ! 0)
     [''Faculty'', ''Course'', ''_originalFacultyName'']
     = [Some (Str ''Rao''), Some (Str ''Algebra''), Some (Str ''Dr. Rao'')] \<and>
   map (applyNameMapping facultyRows ''Faculty'' [''Dr. Rao'' \<mapsto> ''Rao''] ! 1)
     [''Faculty'', ''Course'', ''_originalFacultyName'']
     = [Some (Str ''Sen''), Some (Str ''Logic''), None]"
  by code_simp

text \<open>
  Claim C10 at one row whose faculty cell is \<open>constructor\<close> and a mapping without any
  key. The cell is absent from the mapping, and yet the row is not returned with its
  fields unchanged: \<open>mapping['constructor']\<close> is the function that the mapping inherits,
  which is truthy, so the faculty cell is replaced by that function and
  \<open>_originalFacultyName\<close> is added. The course of the row is kept. The same happens to a
  row whose faculty cell is \<open>__proto__\<close> under the mapping that \<open>createNameMapping\<close>
  builds from that row, which does not have this key.
\<close>

theorem applyNameMapping_inherited_name:
  "map (inheritedRows ! 0) [''Faculty'', ''Course'', ''_originalFacultyName'']
     = [Some (Str ''constructor''), Some (Str ''Algebra''), None] \<and>
   map (applyNameMapping inheritedRows ''Faculty'' Map.empty ! 0)
     [''Faculty'', ''Course'', ''_originalFacultyName'']
     = [Some (Obj ''function Object() { [native code] }''), Some (Str ''Algebra''),
        Some (Str ''constructor'')] \<and>
   applyNameMapping inheritedRows ''Faculty'' Map.empty ! 0 \<noteq> inheritedRows ! 0 \<and>
   (case createNameMapping protoRows ''Faculty'' of
      Inl e \<Rightarrow> False
    | Inr nm \<Rightarrow>
        mapping nm ''__proto__'' = None \<and>
        map (applyNameMapping protoRows ''Faculty'' (mapping nm) ! 0)
          [''Faculty'', ''Course'', ''_originalFacultyName'']
          = [Some (Obj ''[object Object]''), Some (Str ''Logic''), Some (Str ''__proto__'')])"
proof -
  have old: "map (inheritedRows ! 0) [''Faculty'', ''Course'', ''_originalFacultyName'']
     = [Some (Str ''constructor''), Some (Str ''Algebra''), None]"
    by code_simp
  have new: "map (applyNameMapping inheritedRows ''Faculty'' Map.empty ! 0)
     [''Faculty'', ''Course'', ''_originalFacultyName'']
     = [Some (Obj ''function Object() { [native code] }''), Some (Str ''Algebra''),
        Some (Str ''constructor'')]"
    by code_simp
  from old new have "applyNameMapping inheritedRows ''Faculty'' Map.empty ! 0 \<noteq> inheritedRows ! 0"
    by auto
  moreover have "(case createNameMapping protoRows ''Faculty'' of
      Inl e \<Rightarrow> False
    | Inr nm \<Rightarrow>
        mapping nm ''__proto__'' = None \<and>
        map (applyNameMapping protoRows ''Faculty'' (mapping nm) ! 0)
          [''Faculty'', ''Course'', ''_originalFacultyName'']
          = [Some (Obj ''[object Object]''), Some (Str ''Logic''), Some (Str ''__proto__'')])"
    by code_simp
  ultimately show ?thesis using old new by blast
qed

section \<open>Sorting and object entries\<close>


lemma set_insertBy: "set (insertBy cmp x ys) = insert x (set ys)"
  by (induction ys) auto

lemma set_sortBy: "set (sortBy cmp xs) = set xs"
  by (induction xs) (auto simp: sortBy_def set_insertBy)

lemma set_objectEntries: "set (objectEntries obj) = set obj"
  by (auto simp: objectEntries_def set_sortBy)

section \<open>Filtering by a category that no row has\<close>

text \<open>
  Claim C5 at two rows that have a course column and no section column. The selection of
  section \<open>A\<close> is not ignored: the missing cell of every row reads as the empty string,
  which is not among the selected values, so no row is returned, whereas the remaining
  categories alone return both rows, or the one row of the selected course.
\<close>

theorem applyFilters_absent_category:
  "map (\<lambda>row. row ''Section'') unknownRows = [None, None] \<and>
   applyFilters unknownRows [(''Section'', [''A''])] None None = [] \<and>
   applyFilters unknownRows [] None None = unknownRows \<and>
   applyFilters unknownRows [(''Section'', [''A'']), (''Course'', [''Logic''])] None None = [] \<and>
   map (\<lambda>row. row ''Course'') (applyFilters unknownRows [(''Course'', [''Logic''])] None None)
     = [Some (Str ''Logic'')]"
proof -
  have "map (\<lambda>row. row ''Section'') unknownRows = [None, None]"
    by (simp add: unknownRows_def)
  moreover have "applyFilters unknownRows [(''Section'', [''A''])] None None = []"
    by code_simp
  moreover have "applyFilters unknownRows [] None None = unknownRows"
    by (simp add: applyFilters_def)
  moreover have "applyFilters unknownRows [(''Section'', [''A'']), (''Course'', [''Logic''])] None None = []"
    by code_simp
  moreover have "map (\<lambda>row. row ''Course'')
        (applyFilters unknownRows [(''Course'', [''Logic''])] None None) = [Some (Str ''Logic'')]"
    by code_simp
  ultimately show ?thesis by blast
qed

section \<open>The merge of name variants in the dashboard\<close>

text \<open>
  Claim C9, as amended. With a non-empty canonical name, at least two selected variants
  and an active sheet that has a non-empty id, where the canonical name is not
  \<open>__proto__\<close> and the category is not the name of an inherited property,
  \<open>handleConfirmMerge\<close> succeeds, leaves the other categories alone and replaces the
  groups of the merge category: the canonical name maps to the selected variants; every
  other group loses the selected variants, and is deleted when nothing is left of it;
  the new overlay is sent to be saved. With an empty canonical name or fewer than two
  selected variants the state is unchanged.
\<close>

theorem handleConfirmMerge_overlay:
  "(mergeCanonicalName s \<noteq> [] \<and> length (mergeSelectedNames s) \<ge> 2 \<and>
    activeSheet s = Some sheetId \<and> sheetId \<noteq> [] \<and>
    mergeCanonicalName s \<noteq> ''__proto__'' \<and> mergeCategory s \<notin> set inheritedKeys \<longrightarrow>
      (\<exists>s'. handleConfirmMerge s = Inr s' \<and>
         (\<exists>cm. mergedNames s' (mergeCategory s) = Some cm \<and>
            cm (mergeCanonicalName s) = Some (mergeSelectedNames s) \<and>
            (\<forall>c. c \<noteq> mergeCanonicalName s \<longrightarrow>
               cm c =
                 (case (case mergedNames s (mergeCategory s) of None \<Rightarrow> None | Some old \<Rightarrow> old c) of
                    None \<Rightarrow> None
                  | Some vs \<Rightarrow>
                      if filter (\<lambda>v. v \<notin> set (mergeSelectedNames s)) vs = [] then None
                      else Some (filter (\<lambda>v. v \<notin> set (mergeSelectedNames s)) vs)))) \<and>
         (\<forall>cat. cat \<noteq> mergeCategory s \<longrightarrow> mergedNames s' cat = mergedNames s cat) \<and>
         saveRequests s' = saveRequests s @ [(sheetId, mergedNames s')])) \<and>
   (mergeCanonicalName s = [] \<or> length (mergeSelectedNames s) < 2 \<longrightarrow>
      handleConfirmMerge s = Inr s)"
proof -
  have proto: "''__proto__'' \<in> set inheritedKeys"
    by (simp add: inheritedKeys_def)
  show ?thesis
    using proto
    by (auto simp: handleConfirmMerge_def removeSelected_def assign_def Let_def
             split: option.splits)
qed

text \<open>
  The claim as stated fails without an active sheet: a non-empty canonical name and two
  selected variants leave the overlay without any entry, and nothing is saved.
\<close>

theorem handleConfirmMerge_counterexample:
  "mergeCanonicalName noSheetState \<noteq> [] \<and> length (mergeSelectedNames noSheetState) \<ge> 2 \<and>
   handleConfirmMerge noSheetState = Inr noSheetState \<and>
   mergedNames noSheetState (mergeCategory noSheetState) = None \<and>
   saveRequests noSheetState = []"
  by (simp add: handleConfirmMerge_def noSheetState_def)

theorem handleConfirmMerge_overlay_witness:
  "(\<exists>s' cm. handleConfirmMerge mergeState = Inr s' \<and>
      mergedNames s' ''Faculty'' = Some cm \<and>
      cm ''Rao'' = Some [''Dr. Rao'', ''RAO''] \<and>
      cm ''Rao R'' = Some [''Rao Sir''] \<and>
      cm ''Sen'' = None \<and>
      saveRequests s' = [(''sheet1'', mergedNames s')]) \<and>
   handleConfirmMerge (mergeState\<lparr>mergeCanonicalName := []\<rparr>)
     = Inr (mergeState\<lparr>mergeCanonicalName := []\<rparr>)"
proof -
  have pre: "mergeCanonicalName mergeState \<noteq> [] \<and> length (mergeSelectedNames mergeState) \<ge> 2 \<and>
      activeSheet mergeState = Some ''sheet1'' \<and> ''sheet1'' \<noteq> [] \<and>
      mergeCanonicalName mergeState \<noteq> ''__proto__'' \<and>
      mergeCategory mergeState \<notin> set inheritedKeys"
    by (simp add: mergeState_def inheritedKeys_def)
  have cat: "mergeCategory mergeState = ''Faculty''" "mergeCanonicalName mergeState = ''Rao''"
     "mergeSelectedNames mergeState = [''Dr. Rao'', ''RAO'']" "saveRequests mergeState = []"
    by (simp_all add: mergeState_def)
  have old: "mergedNames mergeState ''Faculty''
      = Some [''Rao R'' \<mapsto> [''Dr. Rao'', ''Rao Sir''], ''Sen'' \<mapsto> [''RAO'']]"
    by (simp add: mergeState_def)
  from handleConfirmMerge_overlay [of mergeState "''sheet1''"] pre
  obtain s' cm where res: "handleConfirmMerge mergeState = Inr s'"
    and cm: "mergedNames s' (mergeCategory mergeState) = Some cm"
    "cm (mergeCanonicalName mergeState) = Some (mergeSelectedNames mergeState)"
    "\<forall>c. c \<noteq> mergeCanonicalName mergeState \<longrightarrow>
            cm c =
              (case (case mergedNames mergeState (mergeCategory mergeState) of None \<Rightarrow> None | Some old \<Rightarrow> old c) of
                 None \<Rightarrow> None
               | Some vs \<Rightarrow>
                   if filter (\<lambda>v. v \<notin> set (mergeSelectedNames mergeState)) vs = [] then None
                   else Some (filter (\<lambda>v. v \<notin> set (mergeSelectedNames mergeState)) vs))"
    and save: "saveRequests s' = saveRequests mergeState @ [(''sheet1'', mergedNames s')]"
    by blast
  have 1: "cm ''Rao'' = Some [''Dr. Rao'', ''RAO'']"
    using cm(2) by (simp add: cat)
  have 2: "cm ''Rao R'' = Some [''Rao Sir'']"
    using cm(3) [rule_format, of "''Rao R''"] by (simp add: cat old)
  have 3: "cm ''Sen'' = None"
    using cm(3) [rule_format, of "''Sen''"] by (simp add: cat old)
  have 4: "handleConfirmMerge (mergeState\<lparr>mergeCanonicalName := []\<rparr>)
     = Inr (mergeState\<lparr>mergeCanonicalName := []\<rparr>)"
    using handleConfirmMerge_overlay [of "mergeState\<lparr>mergeCanonicalName := []\<rparr>" "''sheet1''"]
    by simp
  from res cm(1) 1 2 3 save 4 show ?thesis
    by (simp add: cat)
qed

section \<open>Selecting one variant of a group whose canonical name is empty\<close>

text \<open>
  Claim C3 at two rows whose faculty names are \<open>.\<close> and \<open>..\<close>. Both names normalise to
  the empty string, so they form one group whose canonical name is empty. Selecting the
  variant \<open>.\<close> returns one row; selecting both variants returns two.
\<close>

theorem applyFilters_dot_names:
  "(case createNameMapping dotRows ''Name of Faculty'' of
      Inl e \<Rightarrow> False
    | Inr nm \<Rightarrow>
        map canonical (groups nm) = [[]] \<and>
        map variants (groups nm) = [[OStr ''.'', OStr ''..'']] \<and>
        length (applyFilters dotRows [(''Name of Faculty'', [''.''])] (Some nm)
                  (Some ''Name of Faculty'')) = 1 \<and>
        length (applyFilters dotRows [(''Name of Faculty'', [''.'', ''..''])] (Some nm)
                  (Some ''Name of Faculty'')) = 2)"
  by code_simp

section \<open>The order of the time trend\<close>

text \<open>
  Claim C4 at one answer of 5 January and one of 5 February of the same year: the
  February bucket comes first in the result, since the buckets are ordered by their
  labels and not by their dates.
\<close>

theorem calculateTimeTrends_order:
  "calculateTimeTrends trendDates trendRows [''Timestamp'', ''Rating of the course'']
     [''Rating of the course'']
   = [\<lparr>label = ''Feb W1'', value_t = Some 3\<rparr>, \<lparr>label = ''Jan W1'', value_t = Some 5\<rparr>]"
  by code_simp

section \<open>Question columns\<close>

lemma sampleScan_iff:
  "(fst (sampleScan pf h rows b) \<or> snd (sampleScan pf h rows b)) \<longleftrightarrow>
     (b \<or> (\<exists>row\<in>set rows.
              getProp LIKERT_MAPPING (trim (toLowerCase (cellText row h))) \<noteq> None \<or>
              (\<exists>num. pf (trim (toLowerCase (cellText row h))) = Some num \<and> 1 \<le> num \<and> num \<le> 5)))"
proof (induction rows arbitrary: b)
  case Nil
  show ?case by simp
next
  case (Cons row rows)
  show ?case
  proof (cases "getProp LIKERT_MAPPING (trim (toLowerCase (cellText row h))) = None")
    case True
    then show ?thesis
      using Cons.IH [of "b \<or> (case pf (trim (toLowerCase (cellText row h))) of
                                 None \<Rightarrow> False | Some num \<Rightarrow> num \<ge> 1 \<and> num \<le> 5)"]
      by (auto simp: Let_def split: option.splits)
  next
    case False
    then show ?thesis by (auto simp: Let_def)
  qed
qed

lemma isMetadata_iff:
  "isMetadata hl \<longleftrightarrow>
     (\<exists>p\<in>set metadataPatterns. hl = p \<or> startsWith hl p) \<or>
     (includesStr hl ''remark'' \<and> includesStr hl ''special'')"
proof -
  have "''timestamp'' \<in> set metadataPatterns"
    by (simp add: metadataPatterns_def)
  then show ?thesis
    unfolding isMetadata_def list_ex_iff by blast
qed

lemma question_example:
  "identifyQuestionColumns pf [questionHeader] questionRows = [questionHeader]"
  by code_simp

lemma score_example:
  "map score (calculateQuestionScores questionRows [questionHeader]) = [4]"
  by code_simp

text \<open>
  Claim C7. A header is among the question columns exactly when it is a header whose
  trimmed length is at least 15, whose trimmed lower-case form is no metadata column,
  and for which one of the first \<open>min(100, rowCount)\<close> rows has a value that, in lower
  case and trimmed, is a key of the Likert table or is parsed by \<open>parseFloat\<close> to a number
  between 1 and 5. A header is a metadata column exactly when it equals or starts with
  one of the patterns, or contains both \<open>remark\<close> and \<open>special\<close>. The example header
  with the answers Strongly Agree, Agree, Agree, Neutral is a question column, and its
  score is 4.
\<close>

theorem identifyQuestionColumns_iff:
  "(h \<in> set (identifyQuestionColumns parseFloat headers data) \<longleftrightarrow>
      h \<in> set headers \<and> length (trim h) \<ge> 15 \<and> \<not> isMetadata (trim (toLowerCase h)) \<and>
      (\<exists>row\<in>set (take (min 100 (length data)) data).
          getProp LIKERT_MAPPING (trim (toLowerCase (cellText row h))) \<noteq> None \<or>
          (\<exists>num. parseFloat (trim (toLowerCase (cellText row h))) = Some num
                  \<and> 1 \<le> num \<and> num \<le> 5))) \<and>
   (isMetadata hl \<longleftrightarrow>
      (\<exists>p\<in>set metadataPatterns. hl = p \<or> startsWith hl p) \<or>
      (includesStr hl ''remark'' \<and> includesStr hl ''special'')) \<and>
   identifyQuestionColumns parseFloat [questionHeader] questionRows = [questionHeader] \<and>
   map score (calculateQuestionScores questionRows [questionHeader]) = [4]"
proof -
  have "h \<in> set (identifyQuestionColumns parseFloat headers data) \<longleftrightarrow>
      h \<in> set headers \<and> length (trim h) \<ge> 15 \<and> \<not> isMetadata (trim (toLowerCase h)) \<and>
      (\<exists>row\<in>set (take (min 100 (length data)) data).
          getProp LIKERT_MAPPING (trim (toLowerCase (cellText row h))) \<noteq> None \<or>
          (\<exists>num. parseFloat (trim (toLowerCase (cellText row h))) = Some num
                  \<and> 1 \<le> num \<and> num \<le> 5))"
    using sampleScan_iff [of parseFloat h "take (min 100 (length data)) data" False]
    by (auto simp: identifyQuestionColumns_def isQuestionColumn_def Let_def)
  with isMetadata_iff [of hl] question_example [of parseFloat] score_example
  show ?thesis by blast
qed

theorem identifyQuestionColumns_witness:
  "ratingHeader \<in> set (identifyQuestionColumns ratingParse [''Email'', ratingHeader] ratingRows) \<and>
   ''Email'' \<notin> set (identifyQuestionColumns ratingParse [''Email'', ratingHeader] ratingRows)"
proof -
  note iff = identifyQuestionColumns_iff
    [of _ ratingParse "[''Email'', ratingHeader]" ratingRows "[]", THEN conjunct1]
  have len: "length (trim ratingHeader) \<ge> 15" "\<not> length (trim ''Email'') \<ge> 15"
    by code_simp+
  have meta: "\<not> isMetadata (trim (toLowerCase ratingHeader))"
    by code_simp
  have mem: "ratingHeader \<in> set [''Email'', ratingHeader]"
    by simp
  have row: "[ratingHeader \<mapsto> Str '' 4.5 ''] \<in> set (take (min 100 (length ratingRows)) ratingRows)"
    by (simp add: ratingRows_def)
  have num: "ratingParse (trim (toLowerCase (cellText [ratingHeader \<mapsto> Str '' 4.5 ''] ratingHeader)))
      = Some (9 / 2) \<and> (1::rat) \<le> 9 / 2 \<and> (9 / 2 :: rat) \<le> 5"
    by code_simp
  have "ratingHeader \<in> set (identifyQuestionColumns ratingParse [''Email'', ratingHeader] ratingRows)"
    using iff [of ratingHeader] len(1) meta mem row num by blast
  moreover have "''Email'' \<notin> set (identifyQuestionColumns ratingParse [''Email'', ratingHeader] ratingRows)"
    using iff [of "''Email''"] len(2) by blast
  ultimately show ?thesis by blast
qed

section \<open>The canonical name of a group\<close>

lemma map_of_setProp: "map_of (setProp k v al) = (map_of al)(k \<mapsto> v)"
  by (induction al) (auto simp: fun_upd_twist)

lemma keys_setProp:
  "map fst (setProp k v al) = (if k \<in> fst ` set al then map fst al else map fst al @ [k])"
  by (induction al) auto

lemma distinct_setProp: "distinct (map fst al) \<Longrightarrow> distinct (map fst (setProp k v al))"
  by (simp add: keys_setProp)

lemma keys_addTo:
  "fst ` set (addTo k n obj)
     = (if k = ''__proto__'' \<and> k \<notin> fst ` set obj then fst ` set obj
        else insert k (fst ` set obj))"
proof -
  have "set (map fst (setProp k v obj)) = insert k (fst ` set obj)" for v
    unfolding keys_setProp by auto
  then have keys: "fst ` set (setProp k v obj) = insert k (fst ` set obj)" for v
    by simp
  have none: "getProp obj k = None \<longleftrightarrow> k \<notin> fst ` set obj"
    by (simp add: getProp_def map_of_eq_None_iff)
  show ?thesis
  proof (cases "k = ''__proto__'' \<and> k \<notin> fst ` set obj")
    case True
    then have k: "k = ''__proto__''" and absent: "''__proto__'' \<notin> fst ` set obj"
      by auto
    from absent have "getProp obj ''__proto__'' = None"
      by (simp add: getProp_def map_of_eq_None_iff)
    then have "addTo ''__proto__'' n obj = obj"
      by (simp add: addTo_def assignProp_def Let_def)
    with k absent show ?thesis by simp
  next
    case False
    with none have "\<not> (k = ''__proto__'' \<and> getProp obj k = None)"
      by blast
    then have "assignProp k v obj = setProp k v obj" for v
      by (auto simp: assignProp_def)
    then have "\<exists>v. addTo k n obj = setProp k v obj"
      unfolding addTo_def Let_def by blast
    then obtain v where "addTo k n obj = setProp k v obj" ..
    with keys [of v] False show ?thesis by auto
  qed
qed

lemma keys_fold_addCount:
  "fst ` set nc \<subseteq> fst ` set (fold addCount g nc) \<and>
   (\<forall>e\<in>set g. propKey (original e) \<noteq> ''__proto__''
      \<longrightarrow> propKey (original e) \<in> fst ` set (fold addCount g nc))"
proof (induction g arbitrary: nc)
  case Nil
  then show ?case by simp
next
  case (Cons e g)
  have step: "fst ` set nc \<subseteq> fst ` set (addCount e nc)"
    "propKey (original e) \<noteq> ''__proto__'' \<Longrightarrow> propKey (original e) \<in> fst ` set (addCount e nc)"
    by (auto simp: addCount_def keys_addTo)
  from Cons.IH [of "addCount e nc"] step show ?case
    by (simp only: fold_simps list.set) blast
qed

lemma findCanonicalName_defined:
  assumes "e \<in> set nameGroup" and "propKey (original e) \<noteq> ''__proto__''"
  shows "\<exists>c. findCanonicalName nameGroup = Inr c"
proof -
  from keys_fold_addCount [of "[]" nameGroup] assms
  have "propKey (original e) \<in> fst ` set (fold addCount nameGroup [])"
    by blast
  then have "set (sortBy canonicalOrder (objectEntries (fold addCount nameGroup []))) \<noteq> {}"
    by (auto simp: set_sortBy set_objectEntries)
  then show ?thesis
    by (auto simp: findCanonicalName_def Let_def split: list.splits)
qed

lemma totalCountOf_Cons:
  "totalCountOf (e # g) k
     = (if propKey (original e) = k then numOf (count e) else 0) + totalCountOf g k"
  by (simp add: totalCountOf_def)

lemma totalCountOf_absent:
  "k \<notin> (\<lambda>e. propKey (original e)) ` set g \<Longrightarrow> totalCountOf g k = 0"
  by (induction g) (auto simp: totalCountOf_def)

lemma addTo_plain:
  assumes "k \<notin> set inheritedKeys" and "\<forall>p\<in>set obj. isNum (snd p)"
  shows "addTo k (VNum n) obj
           = setProp k (VNum ((case map_of obj k of None \<Rightarrow> 0 | Some v \<Rightarrow> numOf v) + n)) obj"
proof -
  have k: "k \<noteq> ''__proto__''"
    using assms(1) by (auto simp: inheritedKeys_def)
  show ?thesis
  proof (cases "map_of obj k")
    case None
    then show ?thesis
      using assms(1) k by (simp add: addTo_def assignProp_def getProp_def)
  next
    case (Some v)
    then have "(k, v) \<in> set obj"
      by (rule map_of_SomeD)
    with assms(2) have "isNum v" by auto
    then obtain c where "v = VNum c"
      by (cases v) auto
    with Some show ?thesis
      using k by (simp add: addTo_def assignProp_def getProp_def)
  qed
qed

lemma fold_addCount:
  "plainGroup g \<Longrightarrow> distinct (map fst nc) \<Longrightarrow> \<forall>p\<in>set nc. isNum (snd p) \<Longrightarrow>
     distinct (map fst (fold addCount g nc)) \<and>
     (\<forall>k. map_of (fold addCount g nc) k =
            (if k \<in> (\<lambda>e. propKey (original e)) ` set g
             then Some (VNum ((case map_of nc k of None \<Rightarrow> 0 | Some v \<Rightarrow> numOf v)
                              + totalCountOf g k))
             else map_of nc k))"
proof (induction g arbitrary: nc)
  case Nil
  then show ?case by simp
next
  case (Cons e g)
  let ?k = "propKey (original e)"
  let ?nc = "addCount e nc"
  from Cons.prems(1) have plain: "plainGroup g" and key: "?k \<notin> set inheritedKeys"
    and num: "isNum (count e)"
    by (simp_all add: plainGroup_def)
  from num obtain n where n: "count e = VNum n"
    by (cases "count e") auto
  have nc: "?nc = setProp ?k (VNum ((case map_of nc ?k of None \<Rightarrow> 0 | Some v \<Rightarrow> numOf v) + n)) nc"
    using addTo_plain [OF key Cons.prems(3)] by (simp add: addCount_def n)
  have d: "distinct (map fst ?nc)"
    using Cons.prems(2) by (simp add: nc distinct_setProp)
  have m: "map_of ?nc = (map_of nc)(?k \<mapsto>
              VNum ((case map_of nc ?k of None \<Rightarrow> 0 | Some v \<Rightarrow> numOf v) + n))"
    by (simp add: nc map_of_setProp)
  have "set ?nc \<subseteq> insert (?k, VNum ((case map_of nc ?k of None \<Rightarrow> 0 | Some v \<Rightarrow> numOf v) + n)) (set nc)"
    unfolding nc by (induction nc) auto
  with Cons.prems(3) have nums: "\<forall>p\<in>set ?nc. isNum (snd p)"
    by auto
  from Cons.IH [OF plain d nums] show ?case
    by (auto simp: m n totalCountOf_Cons totalCountOf_absent split: option.splits)
qed

lemma nameCounts_entries:
  assumes "plainGroup g"
  shows "(k, c) \<in> set (fold addCount g []) \<longleftrightarrow>
     k \<in> (\<lambda>e. propKey (original e)) ` set g \<and> c = VNum (totalCountOf g k)"
proof -
  from fold_addCount [OF assms, of "[]"]
  have d: "distinct (map fst (fold addCount g []))"
    and m: "\<And>k. map_of (fold addCount g []) k =
            (if k \<in> (\<lambda>e. propKey (original e)) ` set g then Some (VNum (totalCountOf g k)) else None)"
    by simp_all
  have "(k, c) \<in> set (fold addCount g []) \<longleftrightarrow> map_of (fold addCount g []) k = Some c"
    using d by simp
  then show ?thesis by (auto simp: m)
qed

lemma canonicalOrder_le:
  "canonicalOrder (j, VNum x) (k, VNum y) \<le> 0 \<longleftrightarrow>
     y < x \<or> (y = x \<and> length (normalizeName k) \<le> length (normalizeName j))"
  by (auto simp: canonicalOrder_def Let_def)

lemma sortBy_head:
  assumes total: "\<And>x y. P x \<Longrightarrow> P y \<Longrightarrow> cmp x y \<le> 0 \<or> cmp y x \<le> 0"
    and trans: "\<And>x y z. P x \<Longrightarrow> P y \<Longrightarrow> P z \<Longrightarrow> cmp x y \<le> 0 \<Longrightarrow> cmp y z \<le> 0 \<Longrightarrow> cmp x z \<le> 0"
  shows "\<forall>x\<in>set xs. P x \<Longrightarrow> sortBy cmp xs = h # t \<Longrightarrow> \<forall>x\<in>set xs. cmp h x \<le> 0"
proof (induction xs arbitrary: h t)
  case Nil
  then show ?case by (simp add: sortBy_def)
next
  case (Cons x xs)
  note IH = Cons.IH
  have px: "P x" and pxs: "\<forall>z\<in>set xs. P z"
    using Cons.prems(1) by simp_all
  have res: "insertBy cmp x (sortBy cmp xs) = h # t"
    using Cons.prems(2) by (simp add: sortBy_def)
  have refl: "cmp x x \<le> 0"
    using total [OF px px] by simp
  show ?case
  proof (cases "sortBy cmp xs = []")
    case True
    then have "set xs = {}"
      using set_sortBy [of cmp xs] by simp
    moreover from res True have "h = x" by simp
    ultimately show ?thesis using refl by simp
  next
    case False
    then obtain y ys where sorted: "sortBy cmp xs = y # ys"
      by (cases "sortBy cmp xs") auto
    from pxs sorted have least: "\<forall>z\<in>set xs. cmp y z \<le> 0"
      by (rule IH)
    have "y \<in> set xs"
      using sorted set_sortBy [of cmp xs] by (metis list.set_intros(1))
    with pxs have py: "P y" by blast
    show ?thesis
    proof (cases "cmp x y \<le> 0")
      case True
      with res sorted have "h = x" by simp
      moreover have "\<forall>z\<in>set xs. cmp x z \<le> 0"
        using True least trans px py pxs by blast
      ultimately show ?thesis using refl by simp
    next
      case False
      with res sorted have "h = y" by simp
      moreover have "cmp y x \<le> 0"
        using False total [OF px py] by simp
      ultimately show ?thesis using least by simp
    qed
  qed
qed

text \<open>
  For a group that is not empty, whose counts are numbers and whose raw names are not
  names of inherited properties, \<open>findCanonicalName\<close> returns the normalised form of a
  raw name \<open>w\<close> of the group such that no raw name of the group has a higher total count
  (the counts summed per raw name, not per normalised name), and no raw name with the
  same total count has a longer normalised form.
\<close>

lemma findCanonicalName_plain:
  assumes "nameGroup \<noteq> []" and plain: "plainGroup nameGroup"
  shows "\<exists>w. findCanonicalName nameGroup = Inr (normalizeName w) \<and>
             w \<in> (\<lambda>e. propKey (original e)) ` set nameGroup \<and>
             (\<forall>k\<in>(\<lambda>e. propKey (original e)) ` set nameGroup.
                totalCountOf nameGroup k \<le> totalCountOf nameGroup w \<and>
                (totalCountOf nameGroup k = totalCountOf nameGroup w \<longrightarrow>
                   length (normalizeName k) \<le> length (normalizeName w)))"
proof -
  let ?nc = "fold addCount nameGroup []"
  let ?sorted = "sortBy canonicalOrder (objectEntries ?nc)"
  note entries = nameCounts_entries [OF plain]
  have set_sorted: "set ?sorted = set ?nc"
    by (simp add: set_sortBy set_objectEntries)
  obtain e where "e \<in> set nameGroup"
    using assms(1) by (cases nameGroup) auto
  then have "(propKey (original e), VNum (totalCountOf nameGroup (propKey (original e)))) \<in> set ?nc"
    by (simp add: entries)
  with set_sorted have "?sorted \<noteq> []" by auto
  then obtain p ps where sorted: "?sorted = p # ps"
    by (cases ?sorted) auto
  have res: "findCanonicalName nameGroup = Inr (normalizeName (fst p))"
    using sorted by (simp add: findCanonicalName_def Let_def)
  have "p \<in> set ?nc"
    using sorted set_sorted by (metis list.set_intros(1))
  then have p: "fst p \<in> (\<lambda>e. propKey (original e)) ` set nameGroup"
    "snd p = VNum (totalCountOf nameGroup (fst p))"
    using entries [of "fst p" "snd p"] by simp_all
  have nums: "\<forall>x\<in>set (objectEntries ?nc). isNum (snd x)"
    using entries by (auto simp: set_objectEntries)
  have "\<forall>x\<in>set (objectEntries ?nc). canonicalOrder p x \<le> 0"
  proof (rule sortBy_head [where P = "\<lambda>x. isNum (snd x)", OF _ _ nums sorted])
    fix x y :: "string \<times> jsval"
    assume "isNum (snd x)" "isNum (snd y)"
    then obtain j a k b where "x = (j, VNum a)" "y = (k, VNum b)"
      by (cases x, cases y, cases "snd x", cases "snd y") auto
    then show "canonicalOrder x y \<le> 0 \<or> canonicalOrder y x \<le> 0"
      by (auto simp: canonicalOrder_le)
  next
    fix x y z :: "string \<times> jsval"
    assume "isNum (snd x)" "isNum (snd y)" "isNum (snd z)"
    then obtain j a k b l c where "x = (j, VNum a)" "y = (k, VNum b)" "z = (l, VNum c)"
      by (cases x, cases y, cases z, cases "snd x", cases "snd y", cases "snd z") auto
    moreover assume "canonicalOrder x y \<le> 0" "canonicalOrder y z \<le> 0"
    ultimately show "canonicalOrder x z \<le> 0"
      by (auto simp: canonicalOrder_le)
  qed
  then have min: "\<forall>x\<in>set ?nc. canonicalOrder p x \<le> 0"
    by (simp add: set_objectEntries)
  have "totalCountOf nameGroup k \<le> totalCountOf nameGroup (fst p) \<and>
        (totalCountOf nameGroup k = totalCountOf nameGroup (fst p) \<longrightarrow>
           length (normalizeName k) \<le> length (normalizeName (fst p)))"
    if "k \<in> (\<lambda>e. propKey (original e)) ` set nameGroup" for k
  proof -
    from that have "(k, VNum (totalCountOf nameGroup k)) \<in> set ?nc"
      by (simp add: entries)
    with min have "canonicalOrder p (k, VNum (totalCountOf nameGroup k)) \<le> 0" by blast
    then have "canonicalOrder (fst p, VNum (totalCountOf nameGroup (fst p)))
                 (k, VNum (totalCountOf nameGroup k)) \<le> 0"
      using p(2) by (metis prod.collapse)
    then show ?thesis
      by (auto simp: canonicalOrder_le)
  qed
  with res p(1) show ?thesis by blast
qed

text \<open>
  For example, \<open>Rao\<close> and \<open>RAO Kumar\<close> are both seen three times, and the longer name
  wins.
\<close>

lemma findCanonicalName_example:
  "plainGroup tieGroup \<and> findCanonicalName tieGroup = Inr ''Rao Kumar''"
  by code_simp

text \<open>
  Claim C6 at the group of the name \<open>constructor\<close>, seen once, and the name \<open>Rao\<close>, seen
  five times. The canonical name is \<open>Constructor\<close> and not \<open>Rao\<close>, the name with the
  highest count: \<open>nameCounts['constructor']\<close> is the function that the object inherits,
  the sum of it and the count is a string, and the comparison of that string with a
  number is \<open>NaN\<close>, which leaves the entries in their order. In the same way, of the two
  similar names \<open>constructor\<close> and \<open>Constructors\<close>, each given to \<open>groupSimilarNames\<close>
  with the count 2, the name with the shorter normalised form becomes the canonical
  name; and for a sheet with the name \<open>constructor\<close> in its first row and the name
  \<open>Constructors\<close> in five more rows, \<open>createNameMapping\<close> maps both names to
  \<open>Constructor\<close>.
\<close>

theorem findCanonicalName_inherited_name:
  "fold addCount inheritedGroup []
     = [(''constructor'', VStr ''function Object() { [native code] }1''), (''Rao'', VNum 5)] \<and>
   findCanonicalName inheritedGroup = Inr ''Constructor'' \<and>
   totalCountOf inheritedGroup ''constructor'' = 1 \<and>
   totalCountOf inheritedGroup ''Rao'' = 5 \<and>
   normalizeName ''Rao'' = ''Rao'' \<and>
   (case groupSimilarNames tiedNames (3 / 4) of
      Inl e \<Rightarrow> False
    | Inr gs \<Rightarrow> map canonical gs = [''Constructor''] \<and>
               map variants gs = [[OStr ''constructor'', OStr ''Constructors'']]) \<and>
   length (normalizeName ''constructor'') < length (normalizeName ''Constructors'') \<and>
   (case createNameMapping constructorRows ''Faculty'' of
      Inl e \<Rightarrow> False
    | Inr nm \<Rightarrow>
        map canonical (groups nm) = [''Constructor''] \<and>
        map variants (groups nm) = [[OStr ''constructor'', OStr ''Constructors'']] \<and>
        mapping nm ''Constructors'' = Some ''Constructor'')"
  by code_simp

section \<open>The groups are a partition of the variants\<close>

lemma scanStep_inv:
  assumes "distinct (map original (fst st))"
    and "set (map original (fst st)) \<inter> P0 = {}"
    and "snd st = P0 \<union> set (map original (fst st))"
    and "fst st \<noteq> []"
  shows "distinct (map original (fst (scanStep t e other st))) \<and>
         set (map original (fst (scanStep t e other st))) \<inter> P0 = {} \<and>
         snd (scanStep t e other st) = P0 \<union> set (map original (fst (scanStep t e other st))) \<and>
         fst (scanStep t e other st) \<noteq> [] \<and>
         set (map original (fst st)) \<subseteq> set (map original (fst (scanStep t e other st))) \<and>
         set (map original (fst (scanStep t e other st)))
           \<subseteq> set (map original (fst st)) \<union> {original other}"
  using assms by (auto simp: scanStep_def)

lemma fold_scanStep:
  assumes "distinct (map original (fst st))"
    and "set (map original (fst st)) \<inter> P0 = {}"
    and "snd st = P0 \<union> set (map original (fst st))"
    and "fst st \<noteq> []"
  shows "distinct (map original (fst (fold (scanStep t e) xs st))) \<and>
         set (map original (fst (fold (scanStep t e) xs st))) \<inter> P0 = {} \<and>
         snd (fold (scanStep t e) xs st)
           = P0 \<union> set (map original (fst (fold (scanStep t e) xs st))) \<and>
         fst (fold (scanStep t e) xs st) \<noteq> [] \<and>
         set (map original (fst st)) \<subseteq> set (map original (fst (fold (scanStep t e) xs st))) \<and>
         set (map original (fst (fold (scanStep t e) xs st)))
           \<subseteq> set (map original (fst st)) \<union> original ` set xs"
  using assms
proof (induction xs arbitrary: st)
  case Nil
  then show ?case by simp
next
  case (Cons x xs)
  note step = scanStep_inv [OF Cons.prems, of t e x]
  from step have a: "distinct (map original (fst (scanStep t e x st)))"
    and b: "set (map original (fst (scanStep t e x st))) \<inter> P0 = {}"
    and c: "snd (scanStep t e x st) = P0 \<union> set (map original (fst (scanStep t e x st)))"
    and d: "fst (scanStep t e x st) \<noteq> []"
    and lo: "set (map original (fst st)) \<subseteq> set (map original (fst (scanStep t e x st)))"
    and hi: "set (map original (fst (scanStep t e x st)))
           \<subseteq> set (map original (fst st)) \<union> {original x}"
    by blast+
  note IH = Cons.IH [OF a b c d]
  from IH lo hi show ?case
    by (simp only: fold_simps list.set image_insert) blast
qed

lemma groupLoop_partition:
  assumes "distinct (concat (map variants gs0))"
    and "set (concat (map variants gs0)) = processed"
    and "\<forall>g\<in>set gs0. variants g \<noteq> []"
    and "processed \<subseteq> original ` set nameData"
    and "set rest \<subseteq> set nameData"
    and "\<forall>y\<in>set nameData. propKey (original y) \<noteq> ''__proto__''"
  shows "\<exists>gs. groupLoop t nameData rest gs0 processed = Inr gs \<and>
           distinct (concat (map variants gs)) \<and>
           (\<forall>g\<in>set gs. variants g \<noteq> []) \<and>
           processed \<union> original ` set rest \<subseteq> set (concat (map variants gs)) \<and>
           set (concat (map variants gs)) \<subseteq> original ` set nameData"
  using assms
proof (induction rest arbitrary: gs0 processed)
  case Nil
  then show ?case by simp
next
  case (Cons e rest)
  have rest: "set rest \<subseteq> set nameData" and e: "e \<in> set nameData"
    using Cons.prems(5) by auto
  show ?case
  proof (cases "original e \<in> processed")
    case True
    from Cons.IH [OF Cons.prems(1-4) rest Cons.prems(6)] obtain gs where
      gs: "groupLoop t nameData rest gs0 processed = Inr gs"
      "distinct (concat (map variants gs))" "\<forall>g\<in>set gs. variants g \<noteq> []"
      "processed \<union> original ` set rest \<subseteq> set (concat (map variants gs))"
      "set (concat (map variants gs)) \<subseteq> original ` set nameData"
      by blast
    have "processed \<union> original ` set (e # rest) \<subseteq> set (concat (map variants gs))"
      using gs(4) True by auto
    moreover have "groupLoop t nameData (e # rest) gs0 processed = Inr gs"
      using gs(1) True by simp
    ultimately show ?thesis
      using gs(2,3,5) by blast
  next
    case False
    let ?init = "([e], insert (original e) processed)"
    let ?st = "fold (scanStep t e) nameData ?init"
    have inv: "distinct (map original (fst ?st)) \<and>
         set (map original (fst ?st)) \<inter> processed = {} \<and>
         snd ?st = processed \<union> set (map original (fst ?st)) \<and>
         fst ?st \<noteq> [] \<and>
         original e \<in> set (map original (fst ?st)) \<and>
         set (map original (fst ?st)) \<subseteq> insert (original e) (original ` set nameData)"
      using fold_scanStep [of ?init processed t e nameData] False by simp
    then have ne: "fst ?st \<noteq> []" by blast
    then obtain x where x: "x \<in> set (fst ?st)"
      by (cases "fst ?st") auto
    then have "original x \<in> insert (original e) (original ` set nameData)"
      using inv by auto
    with e obtain y where "y \<in> set nameData" "original y = original x"
      by auto
    with Cons.prems(6) have "propKey (original x) \<noteq> ''__proto__''"
      by metis
    with x obtain c where c: "findCanonicalName (fst ?st) = Inr c"
      using findCanonicalName_defined by blast
    let ?g = "\<lparr>canonical = c, variants = map original (fst ?st),
               totalCount = fold (\<lambda>g sum. jsPlus sum (count g)) (fst ?st) (VNum 0)\<rparr>"
    have step: "groupLoop t nameData (e # rest) gs0 processed
        = groupLoop t nameData rest (gs0 @ [?g]) (snd ?st)"
      using False ne c by (simp add: Let_def)
    have 1: "distinct (concat (map variants (gs0 @ [?g])))"
      using Cons.prems(1,2) inv by auto
    have 2: "set (concat (map variants (gs0 @ [?g]))) = snd ?st"
      using Cons.prems(2) inv by auto
    have 3: "\<forall>g\<in>set (gs0 @ [?g]). variants g \<noteq> []"
      using Cons.prems(3) ne by auto
    have 4: "snd ?st \<subseteq> original ` set nameData"
      using Cons.prems(4) inv e by auto
    have 5: "processed \<union> {original e} \<subseteq> snd ?st"
      using inv by auto
    from Cons.IH [OF 1 2 3 4 rest Cons.prems(6)] obtain gs where
      "groupLoop t nameData rest (gs0 @ [?g]) (snd ?st) = Inr gs"
      "distinct (concat (map variants gs))" "\<forall>g\<in>set gs. variants g \<noteq> []"
      "snd ?st \<union> original ` set rest \<subseteq> set (concat (map variants gs))"
      "set (concat (map variants gs)) \<subseteq> original ` set nameData"
      by blast
    moreover have "processed \<union> original ` set (e # rest) \<subseteq> snd ?st \<union> original ` set rest"
      using 5 by auto
    ultimately show ?thesis
      unfolding step by blast
  qed
qed

lemma distinct_concat_disjoint:
  "distinct (concat xss) \<Longrightarrow> i < j \<Longrightarrow> j < length xss \<Longrightarrow> set (xss ! i) \<inter> set (xss ! j) = {}"
proof (induction xss arbitrary: i j)
  case Nil
  then show ?case by simp
next
  case (Cons ys xss)
  show ?case
  proof (cases i)
    case 0
    with Cons.prems obtain j' where j: "j = Suc j'" "j' < length xss"
      by (cases j) auto
    then have "xss ! j' \<in> set xss"
      by simp
    then have "set (xss ! j') \<subseteq> set (concat xss)"
      by auto
    with Cons.prems(1) 0 j show ?thesis by auto
  next
    case (Suc i')
    with Cons.prems obtain j' where j: "j = Suc j'" "i' < j'" "j' < length xss"
      by (cases j) auto
    with Cons.IH [of i' j'] Cons.prems(1) Suc show ?thesis by simp
  qed
qed

lemma distinct_concat_unique:
  assumes "distinct (concat xss)" and "x \<in> set (concat xss)"
  shows "\<exists>!i. i < length xss \<and> x \<in> set (xss ! i)"
proof -
  from assms(2) obtain ys where "ys \<in> set xss" "x \<in> set ys"
    by auto
  then obtain i where i: "i < length xss" "x \<in> set (xss ! i)"
    by (metis in_set_conv_nth)
  have "j = i" if "j < length xss" "x \<in> set (xss ! j)" for j
  proof (rule ccontr)
    assume "j \<noteq> i"
    then consider "j < i" | "i < j" by linarith
    then show False
      using distinct_concat_disjoint [OF assms(1), of j i]
        distinct_concat_disjoint [OF assms(1), of i j] i that by cases auto
  qed
  with i show ?thesis by blast
qed

lemma rawName_originalOf:
  "rawName a = (case originalOf a of OStr s \<Rightarrow> s | OObj x \<Rightarrow> rawName x)"
  by (cases a) auto

lemma distinct_originals:
  assumes "distinct (map rawName names)"
  shows "distinct (map originalOf names)"
proof -
  have "map rawName names
      = map (\<lambda>v. case v of OStr s \<Rightarrow> s | OObj x \<Rightarrow> rawName x) (map originalOf names)"
    by (simp add: rawName_originalOf)
  with assms show ?thesis
    by (metis distinct_map)
qed

lemma propKey_originalOf: "propKey (originalOf a) = ''__proto__'' \<longleftrightarrow> rawName a = ''__proto__''"
  by (cases a) auto

text \<open>
  For a list of variants with pairwise distinct raw names, none of which is
  \<open>__proto__\<close>, and for every threshold, \<open>groupSimilarNames\<close> returns groups (and no
  error) such that every input variant is in the variant list of exactly one group, the
  union of the variant lists is the set of the input variants, no variant occurs twice
  in the lists, the lists hold as many entries as the input, and no group is empty.
\<close>

lemma groupSimilarNames_partition:
  assumes "distinct (map rawName names)" and "\<forall>a\<in>set names. rawName a \<noteq> ''__proto__''"
  shows "\<exists>gs. groupSimilarNames names threshold = Inr gs \<and>
           (\<forall>a\<in>set names. \<exists>!i. i < length gs \<and> originalOf a \<in> set (variants (gs ! i))) \<and>
           \<Union> (set ` variants ` set gs) = originalOf ` set names \<and>
           distinct (concat (map variants gs)) \<and>
           length (concat (map variants gs)) = length names \<and>
           (\<forall>g\<in>set gs. variants g \<noteq> [])"
proof -
  let ?nameData = "sortBy (\<lambda>a b. case jsMinus (count b) (count a) of Some d \<Rightarrow> d | None \<Rightarrow> 0)
                     (map toNameEntry names)"
  have orig: "original ` set ?nameData = originalOf ` set names"
    by (auto simp: set_sortBy toNameEntry_def image_iff)
  have keys: "\<forall>y\<in>set ?nameData. propKey (original y) \<noteq> ''__proto__''"
    using assms(2) by (auto simp: set_sortBy toNameEntry_def propKey_originalOf)
  have "\<exists>gs. groupLoop threshold ?nameData ?nameData [] {} = Inr gs \<and>
           distinct (concat (map variants gs)) \<and>
           (\<forall>g\<in>set gs. variants g \<noteq> []) \<and>
           {} \<union> original ` set ?nameData \<subseteq> set (concat (map variants gs)) \<and>
           set (concat (map variants gs)) \<subseteq> original ` set ?nameData"
    using keys by (intro groupLoop_partition) simp_all
  then obtain gs where gs: "groupLoop threshold ?nameData ?nameData [] {} = Inr gs"
    and d: "distinct (concat (map variants gs))"
    and ne: "\<forall>g\<in>set gs. variants g \<noteq> []"
    and all: "set (concat (map variants gs)) = originalOf ` set names"
    using orig by auto
  have res: "groupSimilarNames names threshold = Inr gs"
    using gs by (simp add: groupSimilarNames_def Let_def)
  have uniq: "\<exists>!i. i < length gs \<and> originalOf a \<in> set (variants (gs ! i))" if "a \<in> set names" for a
  proof -
    from that all have "originalOf a \<in> set (concat (map variants gs))" by auto
    from distinct_concat_unique [OF d this]
    have "\<exists>!i. i < length (map variants gs) \<and> originalOf a \<in> set (map variants gs ! i)" .
    moreover have "(i < length (map variants gs) \<and> originalOf a \<in> set (map variants gs ! i))
        \<longleftrightarrow> (i < length gs \<and> originalOf a \<in> set (variants (gs ! i)))" for i
      by auto
    ultimately show ?thesis by simp
  qed
  have union: "\<Union> (set ` variants ` set gs) = originalOf ` set names"
    using all by auto
  have "length (concat (map variants gs)) = card (set (concat (map variants gs)))"
    using distinct_card [OF d] by simp
  also have "\<dots> = card (set (map originalOf names))"
    using all by simp
  also have "\<dots> = length names"
    using distinct_originals [OF assms(1)] by (metis distinct_card length_map)
  finally have len: "length (concat (map variants gs)) = length names" .
  from res uniq union d len ne show ?thesis by blast
qed

text \<open>For example, three variants fall into two groups.\<close>

lemma groupSimilarNames_example:
  "(case groupSimilarNames variantNames (3 / 4) of
      Inl e \<Rightarrow> False
    | Inr gs \<Rightarrow> map variants gs = [[OStr ''Sen''], [OStr ''Rao'', OStr ''RAO'']])"
  by code_simp


section \<open>Normalising a normalised name\<close>

lemma toLowerChar_cases:
  "toLowerChar c = c \<or> (c \<in> set upperChars \<and> toLowerChar c \<in> set lowerChars)"
  by (simp add: toLowerChar_def upperChars_def lowerChars_def)

lemma toUpperChar_cases: "toUpperChar c = c \<or> c \<in> set lowerChars"
  by (simp add: toUpperChar_def upperChars_def lowerChars_def)

lemma lowerChars_all:
  "list_all (\<lambda>c. toLowerChar c = c \<and> toLowerChar (toUpperChar c) = c) lowerChars"
  by code_simp

lemma toLowerChar_lower: "c \<in> set lowerChars \<Longrightarrow> toLowerChar c = c"
  using lowerChars_all by (simp add: list_all_iff)

lemma toLowerChar_idem: "toLowerChar (toLowerChar c) = toLowerChar c"
  using toLowerChar_cases [of c] toLowerChar_lower [of "toLowerChar c"] by auto

lemma toLower_toUpper_lower: "c \<in> set lowerChars \<Longrightarrow> toLowerChar (toUpperChar c) = c"
  using lowerChars_all by (simp add: list_all_iff)

lemma toLowerChar_toUpperChar: "toLowerChar c = c \<Longrightarrow> toLowerChar (toUpperChar c) = c"
  using toUpperChar_cases [of c] toLower_toUpper_lower [of c] by auto

lemma toLowerChar_space: "toLowerChar (CHR '' '') = CHR '' ''"
  by code_simp

lemma isSpace_space: "isSpace (CHR '' '')"
  by (simp add: isSpace_def)

lemma plainWord_chars:
  "plainWord w \<Longrightarrow> c \<in> set w \<Longrightarrow> \<not> isSpace c \<and> c \<noteq> CHR ''.'' \<and> toLowerChar c = c \<and> c \<noteq> CHR '' ''"
  using isSpace_space by (auto simp: plainWord_def list_all_iff)

lemma plainWord_nonempty: "plainWord w \<Longrightarrow> w \<noteq> []"
  by (simp add: plainWord_def)

subsection \<open>split and join\<close>

lemma split_no_sep: "sep \<notin> set w \<Longrightarrow> split sep w = [w]"
  by (induction w) auto

lemma split_append: "sep \<notin> set w \<Longrightarrow> split sep (w @ sep # rest) = w # split sep rest"
  by (induction w) auto

lemma split_join:
  "\<forall>w\<in>set ws. CHR '' '' \<notin> set w \<Longrightarrow> ws \<noteq> [] \<Longrightarrow> split (CHR '' '') (join ws) = ws"
proof (induction ws rule: join.induct)
  case 1
  then show ?case by simp
next
  case (2 w)
  then show ?case by (simp add: split_no_sep)
next
  case (3 w v ws)
  then show ?case by (simp add: split_append)
qed

lemma splitWords_join:
  assumes "\<forall>w\<in>set ws. plainWord w"
  shows "splitWords (join ws) = ws"
proof (cases "ws = []")
  case True
  then show ?thesis by (simp add: splitWords_def)
next
  case False
  have "\<forall>w\<in>set ws. CHR '' '' \<notin> set w"
    using assms plainWord_chars by blast
  then have "split (CHR '' '') (join ws) = ws"
    using False by (rule split_join)
  moreover have "filter (\<lambda>w. length w > 0) ws = ws"
    using assms plainWord_nonempty by (simp add: filter_id_conv)
  ultimately show ?thesis by (simp add: splitWords_def)
qed

lemma toLowerCase_join: "toLowerCase (join ws) = join (map toLowerCase ws)"
  by (induction ws rule: join.induct) (simp_all add: toLowerCase_def toLowerChar_space)

lemma toLowerCase_capitalize: "plainWord w \<Longrightarrow> toLowerCase (capitalize w) = w"
proof -
  assume p: "plainWord w"
  then obtain c cs where w: "w = c # cs"
    by (cases w) (auto simp: plainWord_def)
  have "toLowerChar (toUpperChar c) = c"
    using p w plainWord_chars [of w c] by (simp add: toLowerChar_toUpperChar)
  moreover have "map toLowerChar (map toLowerChar cs) = cs"
    using p w plainWord_chars [of w] by (simp add: map_idI)
  ultimately show ?thesis
    by (simp add: w capitalize_def toLowerCase_def)
qed

lemma toLowerCase_capitalized:
  assumes "\<forall>w\<in>set ws. plainWord w"
  shows "toLowerCase (join (map capitalize ws)) = join ws"
proof -
  have "map toLowerCase (map capitalize ws) = ws"
    using assms by (simp add: map_idI toLowerCase_capitalize)
  then show ?thesis by (simp add: toLowerCase_join)
qed

lemma set_join: "set (join ws) \<subseteq> \<Union> (set ` set ws) \<union> {CHR '' ''}"
  by (induction ws rule: join.induct) auto

lemma join_nonempty: "ws \<noteq> [] \<Longrightarrow> hd ws \<noteq> [] \<Longrightarrow> join ws \<noteq> []"
  by (induction ws rule: join.induct) auto

lemma hd_join: "ws \<noteq> [] \<Longrightarrow> hd ws \<noteq> [] \<Longrightarrow> hd (join ws) = hd (hd ws)"
  by (induction ws rule: join.induct) auto

lemma join_nonempty_last: "ws \<noteq> [] \<Longrightarrow> last ws \<noteq> [] \<Longrightarrow> join ws \<noteq> []"
  by (induction ws rule: join.induct) auto

lemma last_join: "ws \<noteq> [] \<Longrightarrow> last ws \<noteq> [] \<Longrightarrow> last (join ws) = last (last ws)"
  by (induction ws rule: join.induct) (auto simp: join_nonempty_last)

subsection \<open>The steps of the normaliser on a text that is already clean\<close>

lemma trim_id:
  assumes "s \<noteq> []" and "\<not> isSpace (hd s)" and "\<not> isSpace (last s)"
  shows "trim s = s"
proof -
  have "dropWhile isSpace s = s"
    using assms(1,2) by (cases s) auto
  moreover have "dropWhile isSpace (rev s) = rev s"
    using assms(1,3) by (cases "rev s") (auto simp: hd_rev [symmetric])
  ultimately show ?thesis by (simp add: trim_def)
qed

lemma collapseSpaces_word:
  "\<forall>c\<in>set w. \<not> isSpace c \<Longrightarrow> collapseSpaces (w @ r) = w @ collapseSpaces r"
  by (induction w) auto

lemma collapseSpaces_join:
  "\<forall>w\<in>set ws. plainWord w \<Longrightarrow> collapseSpaces (join ws) = join ws"
proof (induction ws rule: join.induct)
  case 1
  then show ?case by simp
next
  case (2 w)
  then have "\<forall>c\<in>set w. \<not> isSpace c"
    using plainWord_chars by auto
  from collapseSpaces_word [OF this, of "[]"] show ?case by simp
next
  case (3 w v ws)
  have w: "\<forall>c\<in>set w. \<not> isSpace c"
    using 3(2) plainWord_chars by auto
  have v: "plainWord v"
    using 3(2) by simp
  then have "join (v # ws) \<noteq> []" "hd (join (v # ws)) = hd v"
    by (simp_all add: join_nonempty hd_join plainWord_nonempty)
  moreover have "\<not> isSpace (hd v)"
    using v plainWord_chars [of v "hd v"] plainWord_nonempty [of v] by simp
  ultimately have "dropWhile isSpace (join (v # ws)) = join (v # ws)"
    by (cases "join (v # ws)") auto
  moreover have "collapseSpaces (join (v # ws)) = join (v # ws)"
    using 3 by simp
  ultimately show ?case
    using collapseSpaces_word [OF w, of "CHR '' '' # join (v # ws)"]
    by (simp add: isSpace_space)
qed

lemma replaceDots_id: "CHR ''.'' \<notin> set s \<Longrightarrow> replaceDots s = s"
  by (induction s) auto

lemma replaceSpacedDots_id: "CHR ''.'' \<notin> set s \<Longrightarrow> replaceSpacedDots s = s"
proof (induction s)
  case Nil
  then show ?case by simp
next
  case (Cons c cs)
  have "d \<noteq> CHR ''.''" if "dropWhile isSpace (c # cs) = d # ds" for d ds
  proof -
    have "d \<in> set (dropWhile isSpace (c # cs))"
      using that by simp
    then have "d \<in> set (c # cs)"
      by (rule set_dropWhileD)
    with Cons.prems show ?thesis by auto
  qed
  with Cons show ?case
    by (auto split: list.splits)
qed

lemma no_dot_join: "\<forall>w\<in>set ws. plainWord w \<Longrightarrow> CHR ''.'' \<notin> set (join ws)"
  using set_join [of ws] plainWord_chars by fastforce

lemma removeDots_plain: "plainWord w \<Longrightarrow> removeDots w = w"
  using plainWord_chars [of w] by (simp add: removeDots_def filter_id_conv)

lemma trim_join:
  assumes "\<forall>w\<in>set ws. plainWord w" and "ws \<noteq> []"
  shows "trim (join ws) = join ws"
proof (rule trim_id)
  have h: "plainWord (hd ws)" and l: "plainWord (last ws)"
    using assms by simp_all
  show "join ws \<noteq> []"
    using assms(2) h by (simp add: join_nonempty plainWord_nonempty)
  show "\<not> isSpace (hd (join ws))"
    using assms(2) h plainWord_chars [of "hd ws" "hd (hd ws)"]
    by (simp add: hd_join plainWord_nonempty)
  show "\<not> isSpace (last (join ws))"
    using assms(2) l plainWord_chars [of "last ws" "last (last ws)"]
    by (simp add: last_join plainWord_nonempty)
qed

lemma normalizeName_capitalized:
  assumes "\<forall>w\<in>set ws. plainWord w"
  shows "normalizeName (join (map capitalize ws))
           = join (map capitalize (removeSuffix (removePrefix ws)))"
proof (cases "ws = []")
  case True
  then show ?thesis
    by (simp add: normalizeName_def removePrefix_def removeSuffix_def)
next
  case False
  have ne: "join (map capitalize ws) \<noteq> []"
  proof -
    have "toLowerCase (join (map capitalize ws)) = join ws"
      using assms by (rule toLowerCase_capitalized)
    moreover have "join ws \<noteq> []"
      using False assms by (simp add: join_nonempty plainWord_nonempty)
    ultimately show ?thesis by (auto simp: toLowerCase_def)
  qed
  have 1: "trim (toLowerCase (join (map capitalize ws))) = join ws"
    using assms False by (simp add: toLowerCase_capitalized trim_join)
  have 2: "collapseSpaces (join ws) = join ws"
    using assms by (rule collapseSpaces_join)
  have 3: "replaceDots (join ws) = join ws" "replaceSpacedDots (join ws) = join ws"
    using assms by (simp_all add: replaceDots_id replaceSpacedDots_id no_dot_join)
  have 4: "splitWords (join ws) = ws"
    using assms by (rule splitWords_join)
  show ?thesis
    using ne by (simp add: normalizeName_def Let_def 1 2 3 4)
qed


subsection \<open>The words of a normalised name are plain\<close>

lemma set_trim: "set (trim s) \<subseteq> set s"
proof -
  have "set (dropWhile isSpace (rev (dropWhile isSpace s))) \<subseteq> set (rev (dropWhile isSpace s))"
    by (auto dest: set_dropWhileD)
  also have "\<dots> \<subseteq> set s"
    by (auto dest: set_dropWhileD)
  finally show ?thesis by (simp add: trim_def)
qed

lemma set_collapseSpaces:
  "c \<in> set (collapseSpaces s) \<Longrightarrow> c = CHR '' '' \<or> (c \<in> set s \<and> \<not> isSpace c)"
proof (induction s rule: collapseSpaces.induct)
  case 1
  then show ?case by simp
next
  case (2 d ds)
  show ?case
  proof (cases "isSpace d")
    case True
    with 2 have "c = CHR '' '' \<or> c \<in> set (collapseSpaces (dropWhile isSpace ds))"
      by simp
    with 2(1) [OF True] show ?thesis
      by (auto dest: set_dropWhileD)
  next
    case False
    with 2 have "c = d \<or> c \<in> set (collapseSpaces ds)"
      by simp
    with 2(2) [OF False] False show ?thesis
      by auto
  qed
qed

lemma set_replaceDots:
  "c \<in> set (replaceDots s) \<Longrightarrow> c = CHR '' '' \<or> (c \<in> set s \<and> c \<noteq> CHR ''.'')"
proof (induction s rule: replaceDots.induct)
  case 1
  then show ?case by simp
next
  case (2 d ds)
  show ?case
  proof (cases "d = CHR ''.''")
    case True
    with 2 have "c = CHR '' '' \<or> c \<in> set (replaceDots (dropWhile isSpace ds))"
      by simp
    with 2(1) [OF True] show ?thesis
      by (auto dest: set_dropWhileD)
  next
    case False
    with 2 have "c = d \<or> c \<in> set (replaceDots ds)"
      by simp
    with 2(2) [OF False] False show ?thesis
      by auto
  qed
qed

lemma set_replaceSpacedDots:
  "c \<in> set (replaceSpacedDots s) \<Longrightarrow> c = CHR '' '' \<or> c \<in> set s"
proof (induction s rule: replaceSpacedDots.induct)
  case 1
  then show ?case by simp
next
  case (2 d ds)
  show ?case
  proof (cases "dropWhile isSpace (d # ds)")
    case Nil
    with 2 have "c = d \<or> c \<in> set (replaceSpacedDots ds)"
      by simp
    with 2(1) [OF Nil] show ?thesis by auto
  next
    case (Cons e es)
    show ?thesis
    proof (cases "e = CHR ''.''")
      case True
      with 2(4) Cons have "c = CHR '' '' \<or> c \<in> set (replaceSpacedDots (dropWhile isSpace es))"
        by simp
      moreover have "set (dropWhile isSpace es) \<subseteq> set (d # ds)"
      proof -
        have "set (dropWhile isSpace es) \<subseteq> set es"
          by (auto dest: set_dropWhileD)
        also have "\<dots> \<subseteq> set (dropWhile isSpace (d # ds))"
          using Cons by auto
        also have "\<dots> \<subseteq> set (d # ds)"
          by (auto dest: set_dropWhileD)
        finally show ?thesis .
      qed
      ultimately show ?thesis
        using 2(2) [OF Cons True] by auto
    next
      case False
      with 2(4) Cons have "c = d \<or> c \<in> set (replaceSpacedDots ds)"
        by simp
      with 2(3) [OF Cons False] show ?thesis by auto
    qed
  qed
qed

lemma set_split: "w \<in> set (split sep s) \<Longrightarrow> set w \<subseteq> set s - {sep}"
proof (induction s arbitrary: w)
  case Nil
  then show ?case by simp
next
  case (Cons c cs)
  show ?case
  proof (cases "c = sep")
    case True
    with Cons show ?thesis by auto
  next
    case False
    obtain v vs where vs: "split sep cs = v # vs"
      by (cases "split sep cs") (auto split: if_splits list.splits, (cases cs; simp split: if_splits list.splits)+)
    with Cons.prems False have "w = c # v \<or> w \<in> set vs"
      by simp
    with Cons.IH [of v] Cons.IH [of w] vs False show ?thesis
      by auto
  qed
qed

lemma set_removePrefix: "set (removePrefix ws) \<subseteq> set ws"
  by (cases ws) (auto simp: removePrefix_def)

lemma set_removeSuffix: "set (removeSuffix ws) \<subseteq> set ws"
  by (auto simp: removeSuffix_def dest: in_set_butlastD)

lemma plain_nameWords: "w \<in> set (nameWords nm) \<Longrightarrow> plainWord w"
proof -
  let ?s0 = "toLowerCase nm"
  let ?s1 = "trim ?s0"
  let ?s2 = "collapseSpaces ?s1"
  let ?s3 = "replaceDots ?s2"
  let ?s4 = "replaceSpacedDots ?s3"
  assume "w \<in> set (nameWords nm)"
  then have "w \<in> set (removeSuffix (removePrefix (splitWords ?s4)))"
    by (simp add: nameWords_def)
  then have "w \<in> set (removePrefix (splitWords ?s4))"
    using set_removeSuffix by blast
  then have "w \<in> set (splitWords ?s4)"
    using set_removePrefix by blast
  then have ne: "w \<noteq> []" and w: "w \<in> set (split (CHR '' '') ?s4)"
    by (auto simp: splitWords_def)
  have "\<not> isSpace c \<and> c \<noteq> CHR ''.'' \<and> toLowerChar c = c" if "c \<in> set w" for c
  proof -
    from set_split [OF w] that have c4: "c \<in> set ?s4" and nsp: "c \<noteq> CHR '' ''"
      by auto
    from set_replaceSpacedDots [OF c4] nsp have c3: "c \<in> set ?s3" by simp
    from set_replaceDots [OF c3] nsp have c2: "c \<in> set ?s2" and nd: "c \<noteq> CHR ''.''" by simp_all
    from set_collapseSpaces [OF c2] nsp have c1: "c \<in> set ?s1" and ns: "\<not> isSpace c" by simp_all
    from c1 set_trim have "c \<in> set ?s0" by blast
    then have "toLowerChar c = c"
      by (auto simp: toLowerCase_def toLowerChar_idem)
    with nd ns show ?thesis by simp
  qed
  with ne show ?thesis
    by (simp add: plainWord_def list_all_iff)
qed

lemma normalizeName_words: "normalizeName nm = join (map capitalize (nameWords nm))"
proof (cases "nm = []")
  case True
  have "nameWords [] = []"
    by code_simp
  with True show ?thesis
    by (simp add: normalizeName_def)
next
  case False
  then show ?thesis
    by (simp add: normalizeName_def nameWords_def Let_def)
qed

subsection \<open>When a second pass changes the name\<close>

lemma length_removeSuffix: "length (removeSuffix ws) \<le> length ws"
  by (simp add: removeSuffix_def)

lemma strip_fixed_iff:
  assumes "\<forall>w\<in>set ws. plainWord w"
  shows "removeSuffix (removePrefix ws) = ws \<longleftrightarrow>
           \<not> (length ws > 1 \<and> (hd ws \<in> set PREFIXES \<or> last ws \<in> set SUFFIXES))"
proof (cases "length ws > 1")
  case False
  then show ?thesis
    by (simp add: removeSuffix_def removePrefix_def)
next
  case True
  then have ne: "ws \<noteq> []" by auto
  then have h: "removeDots (hd ws) = hd ws" and l: "removeDots (last ws) = last ws"
    using assms by (simp_all add: removeDots_plain)
  show ?thesis
  proof (cases "hd ws \<in> set PREFIXES")
    case p: True
    then have "removePrefix ws = tl ws"
      using True h by (simp add: removePrefix_def)
    moreover have "length (tl ws) < length ws"
      using True by simp
    ultimately have "length (removeSuffix (removePrefix ws)) < length ws"
      using length_removeSuffix [of "tl ws"] by simp
    then have "removeSuffix (removePrefix ws) \<noteq> ws" by auto
    with True p show ?thesis by simp
  next
    case np: False
    then have rp: "removePrefix ws = ws"
      using h by (simp add: removePrefix_def)
    show ?thesis
    proof (cases "last ws \<in> set SUFFIXES")
      case s: True
      then have "removeSuffix ws = butlast ws"
        using True l by (simp add: removeSuffix_def)
      moreover have "butlast ws \<noteq> ws"
      proof
        assume "butlast ws = ws"
        then have "length (butlast ws) = length ws"
          by (rule arg_cong)
        then have "length ws - 1 = length ws"
          by (simp only: length_butlast)
        with True show False by linarith
      qed
      ultimately have "removeSuffix (removePrefix ws) \<noteq> ws"
        using rp by simp
      with True s show ?thesis by simp
    next
      case ns: False
      then have "removeSuffix ws = ws"
        using l by (simp add: removeSuffix_def)
      with rp np ns show ?thesis by simp
    qed
  qed
qed

lemma plain_strip: "\<forall>w\<in>set ws. plainWord w \<Longrightarrow> \<forall>w\<in>set (removeSuffix (removePrefix ws)). plainWord w"
  using set_removeSuffix [of "removePrefix ws"] set_removePrefix [of ws] by blast

lemma capitalized_inj:
  assumes "\<forall>w\<in>set ws. plainWord w" and "\<forall>w\<in>set vs. plainWord w"
    and "join (map capitalize ws) = join (map capitalize vs)"
  shows "ws = vs"
proof -
  have a: "splitWords (toLowerCase (join (map capitalize ws))) = ws"
    using assms(1) by (simp add: toLowerCase_capitalized splitWords_join)
  have b: "splitWords (toLowerCase (join (map capitalize vs))) = vs"
    using assms(2) by (simp add: toLowerCase_capitalized splitWords_join)
  from assms(3)
  have "splitWords (toLowerCase (join (map capitalize ws)))
      = splitWords (toLowerCase (join (map capitalize vs)))"
    by (rule arg_cong)
  then show ?thesis
    unfolding a b .
qed

lemma idempotent_lemma:
  "normalizeName (normalizeName x) = normalizeName x \<longleftrightarrow> \<not> hasHonorific (normalizeName x)"
proof -
  let ?ws = "nameWords x"
  have plain: "\<forall>w\<in>set ?ws. plainWord w"
    using plain_nameWords by blast
  have again: "normalizeName (normalizeName x)
      = join (map capitalize (removeSuffix (removePrefix ?ws)))"
    using plain by (simp add: normalizeName_words [of x] normalizeName_capitalized)
  have "normalizeName (normalizeName x) = normalizeName x
      \<longleftrightarrow> removeSuffix (removePrefix ?ws) = ?ws"
  proof
    assume "normalizeName (normalizeName x) = normalizeName x"
    then have "join (map capitalize (removeSuffix (removePrefix ?ws))) = join (map capitalize ?ws)"
      using again normalizeName_words [of x] by simp
    with capitalized_inj [OF plain_strip [OF plain] plain]
    show "removeSuffix (removePrefix ?ws) = ?ws" by blast
  next
    assume "removeSuffix (removePrefix ?ws) = ?ws"
    then show "normalizeName (normalizeName x) = normalizeName x"
      using again normalizeName_words [of x] by simp
  qed
  moreover have "splitWords (toLowerCase (normalizeName x)) = ?ws"
    using plain by (simp add: normalizeName_words [of x] toLowerCase_capitalized splitWords_join)
  ultimately show ?thesis
    using strip_fixed_iff [OF plain] by (simp add: hasHonorific_def Let_def)
qed

lemma smith_examples:
  "normalizeName ''DR.  Smith '' = ''Smith''" "normalizeName ''dr smith'' = ''Smith''"
  "normalizeName ''Smith'' = ''Smith''"
  by code_simp+

text \<open>
  Claim C1, as amended. \<open>normalizeName\<close> strips one honorific at each end, so for a
  string of ASCII characters normalising twice gives the same as normalising once
  exactly when the normalised form does not itself begin with a word of the prefix list
  or end with a word of the suffix list, followed or preceded by a further word. The
  three spellings of the example all normalise to \<open>Smith\<close>.
\<close>

theorem normalizeName_idempotent_iff:
  "(isAscii x \<longrightarrow>
      (normalizeName (normalizeName x) = normalizeName x
         \<longleftrightarrow> \<not> hasHonorific (normalizeName x))) \<and>
   normalizeName ''DR.  Smith '' = ''Smith'' \<and>
   normalizeName ''dr smith'' = ''Smith'' \<and>
   normalizeName ''Smith'' = ''Smith''"
  using idempotent_lemma [of x] smith_examples by blast

text \<open>
  The claim as stated fails for a doubled honorific: \<open>dr dr smith\<close> normalises to
  \<open>Dr Smith\<close>, which normalises to \<open>Smith\<close>.
\<close>

theorem normalizeName_idempotent_counterexample:
  "normalizeName (normalizeName ''dr dr smith'') \<noteq> normalizeName ''dr dr smith''"
proof -
  have "normalizeName ''dr dr smith'' = ''Dr Smith''" "normalizeName ''Dr Smith'' = ''Smith''"
    by code_simp+
  then show ?thesis by simp
qed

theorem normalizeName_idempotent_witness:
  "isAscii ''Prof. Rao Sir'' \<and>
   normalizeName (normalizeName ''Prof. Rao Sir'') = normalizeName ''Prof. Rao Sir'' \<and>
   normalizeName ''Prof. Rao Sir'' = ''Rao''"
proof -
  have a: "isAscii ''Prof. Rao Sir''"
    by code_simp
  have n: "normalizeName ''Prof. Rao Sir'' = ''Rao''"
    by code_simp
  have "\<not> hasHonorific ''Rao''"
    by code_simp
  then have "\<not> hasHonorific (normalizeName ''Prof. Rao Sir'')"
    unfolding n .
  with normalizeName_idempotent_iff [of "''Prof. Rao Sir''"] a
  have "normalizeName (normalizeName ''Prof. Rao Sir'') = normalizeName ''Prof. Rao Sir''"
    by blast
  with a n show ?thesis by blast
qed

end
